theory Spec2Isabelle
  imports Complex_Main
begin

section \<open>Data model of the optimisation model (build\_model)\<close>

text \<open>
  Identifiers of nodes, technologies and fuels are the strings of the input data; the
  temporal coordinates Year, Day, Hour and SubHour are integers, because the rules do
  arithmetic on them. A Pyomo set iterates in insertion order, so every set is a list.
\<close>

type_synonym node = string
type_synonym tech = string
type_synonym fuel = string

text \<open>The exceptions the modelled rules can raise.\<close>

datatype py_error = IndexError | KeyError | ValueError | ZeroDivisionError

text \<open>
  A Python float that may be \<^verbatim>\<open>float('inf')\<close>: the default of the Max\_... parameters
  and the initial value of delta\_lcoe.
\<close>

datatype pyfloat = Fin real | PInf

fun pyfloat_gt :: "pyfloat \<Rightarrow> real \<Rightarrow> bool" where
  "pyfloat_gt PInf c = True"
| "pyfloat_gt (Fin x) c = (c < x)"

text \<open>
  The decision variables (pyo.Var) that the modelled rules mention, with the index
  tuple of their declaration.
\<close>

datatype var =
    f_slack_pos node fuel int int int int
  | f_slack_neg node fuel int int int int
  | unit_add node tech int
  | unit_sub node tech int
  | cap_add node tech int
  | storage_vol_add node tech int
  | cap_sub node tech int
  | storage_vol_sub node tech int
  | storage_energy_level node tech fuel int int int int
  | start_storage_energy_level node tech fuel
  | f_cons node tech fuel fuel int int int int
  | f_prod node tech fuel int int int int
  | f_import node fuel int int int int
  | f_export node fuel fuel int int int int
  | f_delivery node fuel fuel int int int int
  | f_supply_cons_system node fuel fuel int int int int
  | f_export_timeseries node fuel fuel int int int int
  | f_import_timeseries node fuel int int int int
  | f_fix_quant_import node fuel int int int int

text \<open>The domains given by \<^verbatim>\<open>within=\<close> in the variable declarations.\<close>

datatype domain = NonNegativeReals | NonPositiveReals | NonNegativeIntegers

fun var_domain :: "var \<Rightarrow> domain" where
  "var_domain (f_slack_neg N F1 Y D H sH) = NonPositiveReals"
| "var_domain (unit_add N T Y) = NonNegativeIntegers"
| "var_domain (unit_sub N T Y) = NonNegativeIntegers"
| "var_domain (f_fix_quant_import N F1 Y D H sH) = NonNegativeIntegers"
| "var_domain v = NonNegativeReals"

fun in_domain :: "domain \<Rightarrow> real \<Rightarrow> bool" where
  "in_domain NonNegativeReals x = (0 \<le> x)"
| "in_domain NonPositiveReals x = (x \<le> 0)"
| "in_domain NonNegativeIntegers x = (0 \<le> x \<and> of_int \<lfloor>x\<rfloor> = x)"

text \<open>
  The indexed pyo.Expression components that other rules refer to by name. Pyomo keeps
  such a component as a named node inside the expressions that mention it.
\<close>

datatype named =
    inst_cap node tech int
  | inst_storage_vol node tech int
  | opex node tech int

text \<open>
  What a Python name can hold inside a rule: a plain number (\<open>PyNum\<close>) or a Pyomo
  expression object built from variables, named expressions and numbers.
\<close>

datatype expr =
    PyNum real
  | Var var
  | Named named
  | Add expr expr
  | Sub expr expr
  | Mul expr expr
  | Div expr expr

fun eval :: "(var \<Rightarrow> real) \<Rightarrow> (named \<Rightarrow> real) \<Rightarrow> expr \<Rightarrow> real" where
  "eval \<sigma> \<rho> (PyNum c) = c"
| "eval \<sigma> \<rho> (Var v) = \<sigma> v"
| "eval \<sigma> \<rho> (Named n) = \<rho> n"
| "eval \<sigma> \<rho> (Add a b) = eval \<sigma> \<rho> a + eval \<sigma> \<rho> b"
| "eval \<sigma> \<rho> (Sub a b) = eval \<sigma> \<rho> a - eval \<sigma> \<rho> b"
| "eval \<sigma> \<rho> (Mul a b) = eval \<sigma> \<rho> a * eval \<sigma> \<rho> b"
| "eval \<sigma> \<rho> (Div a b) = eval \<sigma> \<rho> a / eval \<sigma> \<rho> b"

text \<open>
  A constraint rule returns an equality expression, \<^verbatim>\<open>pyo.Constraint.Skip\<close> or (in the
  fuel balance) \<^verbatim>\<open>None\<close>.
\<close>

datatype constr = Eq expr expr

datatype rule_result = Skip | Con constr | RNone

fun sat :: "(var \<Rightarrow> real) \<Rightarrow> (named \<Rightarrow> real) \<Rightarrow> constr \<Rightarrow> bool" where
  "sat \<sigma> \<rho> (Eq a b) = (eval \<sigma> \<rho> a = eval \<sigma> \<rho> b)"

text \<open>
  The sets and parameters of the abstract model that the modelled rules read. Binary
  incidence parameters are booleans; parameters \<^verbatim>\<open>within=NonNegativeIntegers\<close> are
  naturals; parameters whose default is infinity are \<^typ>\<open>pyfloat\<close>.
\<close>

record model =
  SubHour :: "int list"
  Hour_All :: "int list"
  Hour :: "int list"
  Day_All :: "int list"
  Day :: "int list"
  Year_All :: "int list"
  Year :: "int list"
  Tech :: "tech list"
  StorageTech :: "tech list"
  Node :: "node list"
  Fuel :: "fuel list"
  VreFuel :: "fuel list"
  Slack_switch :: nat
  E_input :: "tech \<Rightarrow> fuel \<Rightarrow> bool"
  E_output :: "tech \<Rightarrow> fuel \<Rightarrow> bool"
  Cap_of_input :: "tech \<Rightarrow> bool"
  F_subst :: "fuel \<Rightarrow> fuel \<Rightarrow> bool"
  Delta_Y :: nat
  Delta_D :: nat
  Delta_H :: nat
  Delta_sH :: nat
  Y_start :: nat
  Scale_Y_to :: nat
  Scale_D_to :: nat
  Scale_H_to :: nat
  F_demand :: "node \<Rightarrow> fuel \<Rightarrow> int \<Rightarrow> int \<Rightarrow> int \<Rightarrow> int \<Rightarrow> real"
  F_edp :: "node \<Rightarrow> tech \<Rightarrow> int \<Rightarrow> int \<Rightarrow> int \<Rightarrow> int \<Rightarrow> real"
  V_edp :: "node \<Rightarrow> tech \<Rightarrow> int \<Rightarrow> int \<Rightarrow> int \<Rightarrow> int \<Rightarrow> real"
  Aux_ed :: "tech \<Rightarrow> real"
  Unit_cap_switch :: nat
  Unit_cap :: "node \<Rightarrow> tech \<Rightarrow> int \<Rightarrow> real"
  Max_inst_cap :: "node \<Rightarrow> tech \<Rightarrow> int \<Rightarrow> pyfloat"
  Max_inst_storage_vol :: "node \<Rightarrow> tech \<Rightarrow> int \<Rightarrow> pyfloat"
  Window_rolling_reserve :: "node \<Rightarrow> tech \<Rightarrow> fuel \<Rightarrow> nat"
  F_rolling_reserve :: "node \<Rightarrow> tech \<Rightarrow> fuel \<Rightarrow> real"
  Start_storage_level :: "node \<Rightarrow> tech \<Rightarrow> real"
  Eff :: "tech \<Rightarrow> real"
  Discount_rate :: real
  Max_f_export_timeseries :: "node \<Rightarrow> fuel \<Rightarrow> int \<Rightarrow> real"
  Max_f_import_timeseries :: "node \<Rightarrow> fuel \<Rightarrow> int \<Rightarrow> real"
  Max_f_import :: "node \<Rightarrow> fuel \<Rightarrow> real"
  Max_f_export :: "node \<Rightarrow> fuel \<Rightarrow> real"
  Max_f_injection :: "node \<Rightarrow> fuel \<Rightarrow> real"
  F_fix_quant_import_size :: "node \<Rightarrow> fuel \<Rightarrow> real"
  Max_f_fix_quant_import :: "node \<Rightarrow> fuel \<Rightarrow> nat"
  Share_const_cons_system :: "fuel \<Rightarrow> real"

text \<open>
  A model with empty sets in which every parameter has the default of its declaration.
  Concrete instances below override the fields they need.
\<close>

definition default_model :: model where
  "default_model = \<lparr>
     SubHour = [], Hour_All = [], Hour = [], Day_All = [], Day = [],
     Year_All = [], Year = [], Tech = [], StorageTech = [], Node = [],
     Fuel = [], VreFuel = [],
     Slack_switch = 1,
     E_input = (\<lambda>T F. False), E_output = (\<lambda>T F. False),
     Cap_of_input = (\<lambda>T. False), F_subst = (\<lambda>F F1. False),
     Delta_Y = 1, Delta_D = 1, Delta_H = 1, Delta_sH = 1, Y_start = 1,
     Scale_Y_to = 1, Scale_D_to = 365, Scale_H_to = 24,
     F_demand = (\<lambda>N F Y D H sH. 0),
     F_edp = (\<lambda>N T Y D H sH. 0), V_edp = (\<lambda>N T Y D H sH. 0),
     Aux_ed = (\<lambda>T. 0),
     Unit_cap_switch = 0, Unit_cap = (\<lambda>N T Y. 1),
     Max_inst_cap = (\<lambda>N T Y. PInf), Max_inst_storage_vol = (\<lambda>N T Y. PInf),
     Window_rolling_reserve = (\<lambda>N T F. 0), F_rolling_reserve = (\<lambda>N T F. 1),
     Start_storage_level = (\<lambda>N T. 1 / 2),
     Eff = (\<lambda>T. 1),
     Discount_rate = 0,
     Max_f_export_timeseries = (\<lambda>N F Y. 0), Max_f_import_timeseries = (\<lambda>N F Y. 0),
     Max_f_import = (\<lambda>N F. 0), Max_f_export = (\<lambda>N F. 0),
     Max_f_injection = (\<lambda>N F. 0),
     F_fix_quant_import_size = (\<lambda>N F. 0), Max_f_fix_quant_import = (\<lambda>N F. 0),
     Share_const_cons_system = (\<lambda>F. 0) \<rparr>"

section \<open>Python helpers\<close>

text \<open>Propagation of a raised exception through a sequence of evaluations.\<close>

definition bind_err :: "'e + 'a \<Rightarrow> ('a \<Rightarrow> 'e + 'b) \<Rightarrow> 'e + 'b" where
  "bind_err x f = (case x of Inl e \<Rightarrow> Inl e | Inr v \<Rightarrow> f v)"

text \<open>\<^verbatim>\<open>max(s)\<close> and \<^verbatim>\<open>min(s)\<close> raise ValueError on an empty set.\<close>

definition py_max :: "int list \<Rightarrow> py_error + int" where
  "py_max xs = (if xs = [] then Inl ValueError else Inr (Max (set xs)))"

definition py_min :: "int list \<Rightarrow> py_error + int" where
  "py_min xs = (if xs = [] then Inl ValueError else Inr (Min (set xs)))"

text \<open>\<^verbatim>\<open>xs[0]\<close> raises IndexError on an empty list.\<close>

definition first_elem :: "'a list \<Rightarrow> py_error + 'a" where
  "first_elem xs = (case xs of [] \<Rightarrow> Inl IndexError | x # _ \<Rightarrow> Inr x)"

text \<open>Division of Python numbers.\<close>

definition py_div :: "real \<Rightarrow> real \<Rightarrow> py_error + real" where
  "py_div a b = (if b = 0 then Inl ZeroDivisionError else Inr (a / b))"

text \<open>
  \<^verbatim>\<open>a + b\<close> and \<^verbatim>\<open>sum(...)\<close>: two numbers add to a number, anything that involves a
  Pyomo object is a Pyomo expression. \<^verbatim>\<open>sum\<close> starts from the number 0.
\<close>

fun py_add :: "expr \<Rightarrow> expr \<Rightarrow> expr" where
  "py_add (PyNum a) (PyNum b) = PyNum (a + b)"
| "py_add a b = Add a b"

definition py_sum :: "expr list \<Rightarrow> expr" where
  "py_sum xs = foldl py_add (PyNum 0) xs"

text \<open>
  \<^verbatim>\<open>a == b\<close>: a Python bool between two numbers, an equality expression otherwise.
\<close>

datatype pyobj = PyBool bool | PyRel constr

fun py_eq :: "expr \<Rightarrow> expr \<Rightarrow> pyobj" where
  "py_eq (PyNum a) (PyNum b) = PyBool (a = b)"
| "py_eq a b = PyRel (Eq a b)"

text \<open>
  \<^verbatim>\<open>isinstance(balance, bool)\<close> holds exactly when both sides of the comparison are
  plain numbers. A product or quotient of a variable and a parameter is kept as an
  expression, whatever the value of the parameter. The terms of the fuel balance are
  either the number 0 or contain a variable.
\<close>

fun is_num :: "expr \<Rightarrow> bool" where
  "is_num (PyNum a) = True"
| "is_num e = False"

definition zero_or_symbolic :: "expr \<Rightarrow> bool" where
  "zero_or_symbolic e = (e = PyNum 0 \<or> \<not> is_num e)"

text \<open>A filter whose condition may raise; the elements are visited in order.\<close>

fun filter_err :: "('a \<Rightarrow> py_error + bool) \<Rightarrow> 'a list \<Rightarrow> py_error + 'a list" where
  "filter_err p [] = Inr []"
| "filter_err p (x # xs) =
     bind_err (p x) (\<lambda>b. bind_err (filter_err p xs) (\<lambda>ys. Inr (if b then x # ys else ys)))"

section \<open>Derived scalars and incidence helpers\<close>

text \<open>
  \<^verbatim>\<open>calc_scale_d\<close>, \<^verbatim>\<open>calc_scale_h\<close> and \<^verbatim>\<open>calc_delta_t\<close> raise ZeroDivisionError on an
  empty set when the component is constructed. The rules below read the constructed
  components \<^verbatim>\<open>m.Scale_D\<close>, \<^verbatim>\<open>m.Scale_H\<close> and \<^verbatim>\<open>m.Delta_T\<close>, whose values are
  \<open>Scale_D\<close>, \<open>Scale_H\<close> and \<open>Delta_T\<close>.
\<close>

definition calc_scale_d :: "model \<Rightarrow> py_error + real" where
  "calc_scale_d m = py_div (real (Scale_D_to m)) (real (length (Day m)))"

definition calc_scale_h :: "model \<Rightarrow> py_error + real" where
  "calc_scale_h m = py_div (real (Scale_H_to m)) (real (length (Hour m)))"

definition calc_delta_t :: "model \<Rightarrow> py_error + real" where
  "calc_delta_t m = py_div 1 (real (length (SubHour m)))"

definition Scale_D :: "model \<Rightarrow> real" where
  "Scale_D m = real (Scale_D_to m) / real (length (Day m))"

definition Scale_H :: "model \<Rightarrow> real" where
  "Scale_H m = real (Scale_H_to m) / real (length (Hour m))"

definition Delta_T :: "model \<Rightarrow> real" where
  "Delta_T m = 1 / real (length (SubHour m))"

text \<open>\<^verbatim>\<open>sum(m.F_subst[F1,F2] for F2 in m.Fuel1)\<close>; Fuel1 is an alias of Fuel.\<close>

definition subst_rowsum :: "model \<Rightarrow> fuel \<Rightarrow> nat" where
  "subst_rowsum m F1 = (\<Sum>F2\<leftarrow>Fuel m. if F_subst m F1 F2 then 1 else 0)"

text \<open>\<^verbatim>\<open>[F for F in m.Fuel if m.E_input[T, F]]\<close> and the same for E\_output.\<close>

definition input_fuels :: "model \<Rightarrow> tech \<Rightarrow> fuel list" where
  "input_fuels m T = filter (E_input m T) (Fuel m)"

definition output_fuels :: "model \<Rightarrow> tech \<Rightarrow> fuel list" where
  "output_fuels m T = filter (E_output m T) (Fuel m)"

text \<open>\<^verbatim>\<open>m.Tech - m.StorageTech\<close>.\<close>

definition non_storage_tech :: "model \<Rightarrow> tech list" where
  "non_storage_tech m = filter (\<lambda>T. T \<notin> set (StorageTech m)) (Tech m)"

text \<open>
  \<^verbatim>\<open>m.Max_inst_cap[N,T,Y] > 0 and m.Max_inst_storage_vol[N,T,Y] > 0\<close>.
\<close>

definition storage_allowed :: "model \<Rightarrow> node \<Rightarrow> tech \<Rightarrow> int \<Rightarrow> bool" where
  "storage_allowed m N T Y =
     (pyfloat_gt (Max_inst_cap m N T Y) 0 \<and> pyfloat_gt (Max_inst_storage_vol m N T Y) 0)"

section \<open>Capacity and storage-volume motion\<close>

text \<open>
  \<^verbatim>\<open>cap_motion_rule\<close> and \<^verbatim>\<open>storage_vol_motion_rule\<close>. The component being defined is
  indexed by the sampled years, so the reference to the entry of year \<open>Y - Delta_Y\<close>
  raises KeyError when that year is not sampled.
\<close>

definition cap_motion_rule :: "model \<Rightarrow> node \<Rightarrow> tech \<Rightarrow> int \<Rightarrow> py_error + expr" where
  "cap_motion_rule m N T Y =
     (if Y = int (Y_start m) then Inr (Var (cap_add N T Y))
      else if Y - int (Delta_Y m) \<in> set (Year m)
      then Inr (Sub (Add (Named (inst_cap N T (Y - int (Delta_Y m)))) (Var (cap_add N T Y)))
                    (Var (cap_sub N T Y)))
      else Inl KeyError)"

definition storage_vol_motion_rule :: "model \<Rightarrow> node \<Rightarrow> tech \<Rightarrow> int \<Rightarrow> py_error + expr" where
  "storage_vol_motion_rule m N StoreT Y =
     (if Y = int (Y_start m) then Inr (Var (storage_vol_add N StoreT Y))
      else if Y - int (Delta_Y m) \<in> set (Year m)
      then Inr (Sub (Add (Named (inst_storage_vol N StoreT (Y - int (Delta_Y m))))
                         (Var (storage_vol_add N StoreT Y)))
                    (Var (storage_vol_sub N StoreT Y)))
      else Inl KeyError)"

section \<open>Unit sizing\<close>

text \<open>\<^verbatim>\<open>unit_add_constraint_rule\<close> and \<^verbatim>\<open>unit_sub_constraint_rule\<close>.\<close>

definition unit_add_constraint_rule :: "model \<Rightarrow> node \<Rightarrow> tech \<Rightarrow> int \<Rightarrow> rule_result" where
  "unit_add_constraint_rule m N T Y =
     (if Unit_cap_switch m = 1
      then Con (Eq (Var (cap_add N T Y)) (Mul (Var (unit_add N T Y)) (PyNum (Unit_cap m N T Y))))
      else Skip)"

definition unit_sub_constraint_rule :: "model \<Rightarrow> node \<Rightarrow> tech \<Rightarrow> int \<Rightarrow> rule_result" where
  "unit_sub_constraint_rule m N T Y =
     (if Unit_cap_switch m = 1
      then Con (Eq (Var (cap_sub N T Y)) (Mul (Var (unit_sub N T Y)) (PyNum (Unit_cap m N T Y))))
      else Skip)"

section \<open>Storage level constraints\<close>

text \<open>
  \<^verbatim>\<open>start_storage_energy_level_constraint_rule\<close>. The guard reads the limits of the
  last sampled year; the input fuel is the first element of the list of declared input
  fuels; the right-hand side refers to the installed storage volume of the first sampled
  year.
\<close>

definition start_storage_energy_level_constraint_rule ::
  "model \<Rightarrow> node \<Rightarrow> tech \<Rightarrow> py_error + rule_result" where
  "start_storage_energy_level_constraint_rule m N StoreT =
     bind_err (py_max (Year m)) (\<lambda>maxY.
       if storage_allowed m N StoreT maxY
       then bind_err (first_elem (input_fuels m StoreT)) (\<lambda>F.
            bind_err (py_min (Year m)) (\<lambda>minY.
              Inr (Con (Eq
                (py_sum (map (\<lambda>F1. Var (start_storage_energy_level N StoreT F1))
                   (filter (\<lambda>F1. F_subst m F F1 \<and> subst_rowsum m F1 = 1) (Fuel m))))
                (Mul (PyNum (Start_storage_level m N StoreT))
                     (Named (inst_storage_vol N StoreT minY)))))))
       else Inr Skip)"

text \<open>
  \<^verbatim>\<open>end_storage_energy_level_constraint_rule\<close>. The input fuel is resolved before the
  guard is read.
\<close>

definition end_storage_energy_level_constraint_rule ::
  "model \<Rightarrow> node \<Rightarrow> tech \<Rightarrow> fuel \<Rightarrow> py_error + rule_result" where
  "end_storage_energy_level_constraint_rule m N StoreT F1 =
     bind_err (first_elem (input_fuels m StoreT)) (\<lambda>F.
     bind_err (py_max (Year m)) (\<lambda>maxY.
       if storage_allowed m N StoreT maxY \<and> F_subst m F F1 \<and> subst_rowsum m F1 = 1
       then bind_err (py_max (Day m)) (\<lambda>maxD.
            bind_err (py_max (Hour m)) (\<lambda>maxH.
            bind_err (py_max (SubHour m)) (\<lambda>maxsH.
              Inr (Con (Eq (Var (storage_energy_level N StoreT F1 maxY maxD maxH maxsH))
                           (Var (start_storage_energy_level N StoreT F1)))))))
       else Inr Skip))"

text \<open>
  The previous time stamp of \<^verbatim>\<open>storage_energy_balance_constraint_rule\<close>: SubHour is
  decremented and wraps into Hour, Day and Year at the bounds of the sampled sets.
\<close>

definition previous_time_stamp ::
  "model \<Rightarrow> int \<Rightarrow> int \<Rightarrow> int \<Rightarrow> int \<Rightarrow> py_error + (int \<times> int \<times> int \<times> int)" where
  "previous_time_stamp m Y D H sH =
     bind_err (py_min (SubHour m)) (\<lambda>minsH.
       if sH - int (Delta_sH m) < minsH
       then bind_err (py_max (SubHour m)) (\<lambda>maxsH.
            bind_err (py_min (Hour m)) (\<lambda>minH.
              if H - int (Delta_H m) < minH
              then bind_err (py_max (Hour m)) (\<lambda>maxH.
                   bind_err (py_min (Day m)) (\<lambda>minD.
                     if D - int (Delta_D m) < minD
                     then bind_err (py_max (Day m)) (\<lambda>maxD.
                            Inr (Y - int (Delta_Y m), maxD, maxH, maxsH))
                     else Inr (Y, D - int (Delta_D m), maxH, maxsH)))
              else Inr (Y, D, H - int (Delta_H m), maxsH)))
       else Inr (Y, D, H, sH - int (Delta_sH m)))"

text \<open>
  The level of the previous time stamp: the start level when the previous year lies
  before the start year or before the first sampled year, the level variable otherwise.
  The level variable is indexed by the sampled sets, so an index outside them raises
  KeyError.
\<close>

definition pre_level ::
  "model \<Rightarrow> node \<Rightarrow> tech \<Rightarrow> fuel \<Rightarrow> int \<times> int \<times> int \<times> int \<Rightarrow> py_error + expr" where
  "pre_level m N StoreT F1 t =
     (case t of (preY, preD, preH, preSubH) \<Rightarrow>
        if preY < int (Y_start m) then Inr (Var (start_storage_energy_level N StoreT F1))
        else bind_err (py_min (Year m)) (\<lambda>minY.
          if preY < minY then Inr (Var (start_storage_energy_level N StoreT F1))
          else if preY \<in> set (Year m) \<and> preD \<in> set (Day m) \<and> preH \<in> set (Hour m)
                  \<and> preSubH \<in> set (SubHour m)
          then Inr (Var (storage_energy_level N StoreT F1 preY preD preH preSubH))
          else Inl KeyError))"

text \<open>
  \<^verbatim>\<open>storage_energy_balance_constraint_rule\<close>. The discharge divides the production
  variable by the number \<^verbatim>\<open>m.Eff[StoreT]\<close>, which raises ZeroDivisionError when the
  efficiency is 0; this happens before the previous time stamp is computed.
\<close>

definition storage_energy_balance_constraint_rule ::
  "model \<Rightarrow> node \<Rightarrow> tech \<Rightarrow> fuel \<Rightarrow> int \<Rightarrow> int \<Rightarrow> int \<Rightarrow> int \<Rightarrow> py_error + rule_result" where
  "storage_energy_balance_constraint_rule m N StoreT F1 Y D H sH =
     (if storage_allowed m N StoreT Y \<and> subst_rowsum m F1 = 1
      then bind_err (first_elem (input_fuels m StoreT)) (\<lambda>F.
        if \<not> F_subst m F F1 then Inr Skip
        else if Eff m StoreT = 0 then Inl ZeroDivisionError
        else
          let charge = Mul (Mul (Var (f_cons N StoreT F F1 Y D H sH)) (PyNum (Eff m StoreT)))
                           (PyNum (Delta_T m));
              discharge = Mul (Div (Var (f_prod N StoreT F1 Y D H sH)) (PyNum (Eff m StoreT)))
                              (PyNum (Delta_T m))
          in bind_err (previous_time_stamp m Y D H sH) (\<lambda>t.
             bind_err (pre_level m N StoreT F1 t) (\<lambda>preLevel.
               Inr (Con (Eq (Var (storage_energy_level N StoreT F1 Y D H sH))
                            (Sub (Add preLevel charge) discharge))))))
      else Inr Skip)"

section \<open>Rolling reserve\<close>

text \<open>
  The forward step inside \<^verbatim>\<open>storage_energy_level_rolling_reserve_rule\<close>. When the
  advanced year exceeds the last sampled year, the year coordinate receives
  \<^verbatim>\<open>min(m.Day)\<close>.
\<close>

definition next_time_step ::
  "model \<Rightarrow> int \<Rightarrow> int \<Rightarrow> int \<Rightarrow> int \<Rightarrow> py_error + (int \<times> int \<times> int \<times> int)" where
  "next_time_step m Y D H sH =
     bind_err (py_max (SubHour m)) (\<lambda>maxsH.
       if sH + int (Delta_sH m) > maxsH
       then bind_err (py_min (SubHour m)) (\<lambda>minsH.
            bind_err (py_max (Hour m)) (\<lambda>maxH.
              if H + int (Delta_H m) > maxH
              then bind_err (py_min (Hour m)) (\<lambda>minH.
                   bind_err (py_max (Day m)) (\<lambda>maxD.
                     if D + int (Delta_D m) > maxD
                     then bind_err (py_min (Day m)) (\<lambda>minD.
                          bind_err (py_max (Year m)) (\<lambda>maxY.
                            if Y + int (Delta_Y m) > maxY
                            then Inr (minD, minD, minH, minsH)
                            else Inr (Y + int (Delta_Y m), minD, minH, minsH)))
                     else Inr (Y, D + int (Delta_D m), minH, minsH)))
              else Inr (Y, D, H + int (Delta_H m), minsH)))
       else Inr (Y, D, H, sH + int (Delta_sH m)))"

text \<open>
  \<^verbatim>\<open>m.F_demand[N,F,Y,D,H,sH]\<close> is indexed by Year\_All, Day\_All, Hour\_All and SubHour.
\<close>

definition F_demand_lookup ::
  "model \<Rightarrow> node \<Rightarrow> fuel \<Rightarrow> int \<times> int \<times> int \<times> int \<Rightarrow> py_error + real" where
  "F_demand_lookup m N F t =
     (case t of (Y, D, H, sH) \<Rightarrow>
        if Y \<in> set (Year_All m) \<and> D \<in> set (Day_All m) \<and> H \<in> set (Hour_All m)
           \<and> sH \<in> set (SubHour m)
        then Inr (F_demand m N F Y D H sH) else Inl KeyError)"

fun rolling_loop ::
  "model \<Rightarrow> node \<Rightarrow> fuel \<Rightarrow> nat \<Rightarrow> int \<times> int \<times> int \<times> int \<Rightarrow> real \<Rightarrow> py_error + real" where
  "rolling_loop m N F 0 t rolling_sum = Inr rolling_sum"
| "rolling_loop m N F (Suc n) t rolling_sum =
     (case t of (Y, D, H, sH) \<Rightarrow>
        bind_err (next_time_step m Y D H sH) (\<lambda>t'.
        bind_err (F_demand_lookup m N F t') (\<lambda>d.
          rolling_loop m N F n t' (rolling_sum + d))))"

definition storage_energy_level_rolling_reserve_rule ::
  "model \<Rightarrow> node \<Rightarrow> tech \<Rightarrow> fuel \<Rightarrow> int \<Rightarrow> int \<Rightarrow> int \<Rightarrow> int \<Rightarrow> py_error + real" where
  "storage_energy_level_rolling_reserve_rule m N StoreT F Y D H sH =
     (if Window_rolling_reserve m N StoreT F > 0 \<and> F_rolling_reserve m N StoreT F > 0
      then bind_err
             (rolling_loop m N F (Window_rolling_reserve m N StoreT F * length (SubHour m))
                (Y, D, H, sH) 0)
             (\<lambda>rolling_sum. Inr (rolling_sum * F_rolling_reserve m N StoreT F * Delta_T m))
      else Inr 0)"

text \<open>
  The forward walk as the specification describes it, for comparison with the rule: one
  step on a time stamp, and the list of the \<open>n\<close> time stamps that follow a time stamp.
\<close>

definition forward_step :: "model \<Rightarrow> int \<times> int \<times> int \<times> int \<Rightarrow> int \<times> int \<times> int \<times> int" where
  "forward_step m t =
     (case t of (Y, D, H, sH) \<Rightarrow>
        if sH + int (Delta_sH m) \<le> Max (set (SubHour m)) then (Y, D, H, sH + int (Delta_sH m))
        else if H + int (Delta_H m) \<le> Max (set (Hour m))
          then (Y, D, H + int (Delta_H m), Min (set (SubHour m)))
        else if D + int (Delta_D m) \<le> Max (set (Day m))
          then (Y, D + int (Delta_D m), Min (set (Hour m)), Min (set (SubHour m)))
        else if Y + int (Delta_Y m) \<le> Max (set (Year m))
          then (Y + int (Delta_Y m), Min (set (Day m)), Min (set (Hour m)), Min (set (SubHour m)))
        else (Min (set (Day m)), Min (set (Day m)), Min (set (Hour m)), Min (set (SubHour m))))"

fun forward_walk :: "model \<Rightarrow> nat \<Rightarrow> int \<times> int \<times> int \<times> int \<Rightarrow> (int \<times> int \<times> int \<times> int) list" where
  "forward_walk m 0 t = []"
| "forward_walk m (Suc n) t = forward_step m t # forward_walk m n (forward_step m t)"

text \<open>Whether a time stamp is an index of \<^verbatim>\<open>m.F_demand\<close>.\<close>

definition demand_index :: "model \<Rightarrow> int \<times> int \<times> int \<times> int \<Rightarrow> bool" where
  "demand_index m t =
     (case t of (Y, D, H, sH) \<Rightarrow>
        Y \<in> set (Year_All m) \<and> D \<in> set (Day_All m) \<and> H \<in> set (Hour_All m)
        \<and> sH \<in> set (SubHour m))"

section \<open>Fuel balance\<close>

text \<open>
  \<^verbatim>\<open>m.F_subst['Electricity',F1]\<close> is the one parameter read in the fuel balance whose
  index is a literal and not an element drawn from the index sets.
\<close>

definition subst_lookup :: "model \<Rightarrow> fuel \<Rightarrow> fuel \<Rightarrow> py_error + bool" where
  "subst_lookup m F F1 =
     (if F \<in> set (Fuel m) \<and> F1 \<in> set (Fuel m) then Inr (F_subst m F F1) else Inl KeyError)"

text \<open>The condition of the consumption sum, with the short circuits of and/or.\<close>

definition cons_cond ::
  "model \<Rightarrow> node \<Rightarrow> fuel \<Rightarrow> int \<Rightarrow> int \<Rightarrow> int \<Rightarrow> int \<Rightarrow> tech \<times> fuel \<Rightarrow> py_error + bool" where
  "cons_cond m N F1 Y D H sH p =
     (case p of (T, F) \<Rightarrow>
        if F_subst m F F1
        then (if E_input m T F then Inr True
              else bind_err (subst_lookup m ''Electricity'' F1) (\<lambda>el.
                     Inr (el \<and> (F_edp m N T Y D H sH > 0 \<or> V_edp m N T Y D H sH > 0
                                \<or> Aux_ed m T > 0))))
        else Inr False)"

text \<open>The two sides of the balance, as the rule builds them.\<close>

definition balance_lhs ::
  "model \<Rightarrow> node \<Rightarrow> fuel \<Rightarrow> int \<Rightarrow> int \<Rightarrow> int \<Rightarrow> int \<Rightarrow> expr" where
  "balance_lhs m N F1 Y D H sH =
     (let f_prod_temp = py_sum [Var (f_prod N T F1 Y D H sH).
            T \<leftarrow> non_storage_tech m, pyfloat_gt (Max_inst_cap m N T Y) 0, E_output m T F1];
          f_discharge_temp = py_sum [Var (f_prod N T F1 Y D H sH).
            T \<leftarrow> StorageTech m, storage_allowed m N T Y,
            F \<leftarrow> Fuel m, E_output m T F \<and> F_subst m F F1 \<and> subst_rowsum m F1 = 1];
          f_import_temp =
            (if Max_f_import m N F1 > 0 then Var (f_import N F1 Y D H sH) else PyNum 0);
          f_fix_quant_import_temp =
            (if Max_f_fix_quant_import m N F1 > 0
             then Div (Mul (Var (f_fix_quant_import N F1 Y D H sH))
                           (PyNum (F_fix_quant_import_size m N F1))) (PyNum (Delta_T m))
             else PyNum 0);
          f_import_timeseries_temp =
            (if Max_f_import_timeseries m N F1 Y > 0
             then Var (f_import_timeseries N F1 Y D H sH) else PyNum 0);
          f_slack_pos_temp =
            (if Slack_switch m = 1 then Var (f_slack_pos N F1 Y D H sH) else PyNum 0);
          f_slack_neg_temp =
            (if Slack_switch m = 1 then Var (f_slack_neg N F1 Y D H sH) else PyNum 0)
      in foldl py_add f_prod_temp
           [f_discharge_temp, f_import_temp, f_fix_quant_import_temp,
            f_import_timeseries_temp, f_slack_pos_temp, f_slack_neg_temp])"

definition balance_rhs ::
  "model \<Rightarrow> node \<Rightarrow> fuel \<Rightarrow> int \<Rightarrow> int \<Rightarrow> int \<Rightarrow> int \<Rightarrow> (tech \<times> fuel) list \<Rightarrow> expr" where
  "balance_rhs m N F1 Y D H sH cons_idx =
     (let f_cons_temp = py_sum (map (\<lambda>p. Var (f_cons N (fst p) (snd p) F1 Y D H sH)) cons_idx);
          f_charge_temp = py_sum [Var (f_cons N T F F1 Y D H sH).
            T \<leftarrow> StorageTech m, storage_allowed m N T Y,
            F \<leftarrow> Fuel m, E_input m T F \<and> F_subst m F F1 \<and> subst_rowsum m F1 = 1];
          f_delivery_temp = py_sum [Var (f_delivery N F F1 Y D H sH).
            F \<leftarrow> Fuel m,
            F_subst m F F1 \<and> F_demand m N F Y D H sH > 0 \<and> subst_rowsum m F1 = 1];
          f_supply_cons_system_temp = py_sum [Var (f_supply_cons_system N F F1 Y D H sH).
            F \<leftarrow> Fuel m,
            F_subst m F F1 \<and> Share_const_cons_system m F > 0 \<and> subst_rowsum m F1 = 1];
          f_export_temp = py_sum [Var (f_export N F F1 Y D H sH).
            F \<leftarrow> Fuel m,
            F_subst m F F1 \<and> (Max_f_export m N F > 0 \<or> Max_f_injection m N F > 0)
              \<and> subst_rowsum m F1 = 1];
          f_export_timeseries_temp = py_sum [Var (f_export_timeseries N F F1 Y D H sH).
            F \<leftarrow> Fuel m,
            F_subst m F F1 \<and> Max_f_export_timeseries m N F Y > 0 \<and> subst_rowsum m F1 = 1]
      in foldl py_add f_cons_temp
           [f_supply_cons_system_temp, f_charge_temp, f_delivery_temp, f_export_temp,
            f_export_timeseries_temp])"

text \<open>
  \<^verbatim>\<open>fuel_balance_constraint_rule\<close>. The consumption sum is the first thing evaluated
  inside the guard, and the only one that can raise.
\<close>

definition fuel_balance_constraint_rule ::
  "model \<Rightarrow> node \<Rightarrow> fuel \<Rightarrow> int \<Rightarrow> int \<Rightarrow> int \<Rightarrow> int \<Rightarrow> py_error + rule_result" where
  "fuel_balance_constraint_rule m N F1 Y D H sH =
     (if subst_rowsum m F1 = 1 \<and> F1 \<notin> set (VreFuel m)
      then bind_err
        (filter_err (cons_cond m N F1 Y D H sH)
           [(T, F). T \<leftarrow> non_storage_tech m, pyfloat_gt (Max_inst_cap m N T Y) 0, F \<leftarrow> Fuel m])
        (\<lambda>cons_idx.
           case py_eq (balance_lhs m N F1 Y D H sH) (balance_rhs m N F1 Y D H sH cons_idx) of
             PyRel balance \<Rightarrow> Inr (Con balance)
           | PyBool True \<Rightarrow> Inr Skip
           | PyBool False \<Rightarrow> Inr RNone)
      else Inr Skip)"

section \<open>Discounting of operational costs\<close>

text \<open>The settings of the OptSys object that the modelled methods read.\<close>

record optsys =
  start_disc_capex :: int
  start_disc_opex :: int
  zero_threshold :: real

definition default_optsys :: optsys where
  "default_optsys = \<lparr> start_disc_capex = 0, start_disc_opex = 1, zero_threshold = 1 / 10 ^ 6 \<rparr>"

text \<open>
  \<^verbatim>\<open>calc_disc_opex\<close>, on the values \<open>\<rho> (opex N T Y)\<close> of the opex expressions.
  \<^verbatim>\<open>int(Scale_Y_to / len(Year))\<close> truncates a quotient of non-negative integers.
\<close>

definition calc_disc_opex :: "optsys \<Rightarrow> model \<Rightarrow> (named \<Rightarrow> real) \<Rightarrow> tech \<Rightarrow> py_error + real" where
  "calc_disc_opex self m \<rho> T =
     (if Year m = [] then Inl ZeroDivisionError
      else if 1 + Discount_rate m = 0 then Inl ZeroDivisionError
      else
        let Scale_Y_int = int (Scale_Y_to m div length (Year m));
            r_frac = 1 / (1 + Discount_rate m);
            y_offset = start_disc_opex self;
            considered_years = int (length (Year m)) * Scale_Y_int;
            missing_years =
              map (\<lambda>i. int (Scale_Y_to m) - int i - (1 - y_offset))
                  [0 ..< nat (int (Scale_Y_to m) - considered_years)]
        in Inr (sum_list [\<rho> (opex N T Y) * power_int r_frac (int Y2 + y_offset + (Y - 1) * Scale_Y_int).
                    Y \<leftarrow> Year m, Y2 \<leftarrow> [0 ..< nat Scale_Y_int], N \<leftarrow> Node m]
              + sum_list [\<rho> (opex N T (Max (set (Year m)))) * power_int r_frac Y.
                    Y \<leftarrow> missing_years, N \<leftarrow> Node m]))"

section \<open>Full-load hours\<close>

text \<open>
  \<^verbatim>\<open>flh_rule\<close> of calc\_kpi, on the values of a solved instance: \<open>\<sigma>\<close> gives the value
  of each variable, \<open>\<rho>\<close> the value of each named expression. The comparison
  \<^verbatim>\<open>inst_cap == 0\<close> is read on the value of the installed capacity.
\<close>

definition flh_rule ::
  "model \<Rightarrow> (var \<Rightarrow> real) \<Rightarrow> (named \<Rightarrow> real) \<Rightarrow> node \<Rightarrow> tech \<Rightarrow> int \<Rightarrow> py_error + real" where
  "flh_rule m \<sigma> \<rho> N T Y =
     (let inst_cap_v = \<rho> (inst_cap N T Y)
      in if inst_cap_v = 0 then Inr 0
         else bind_err
           (if Cap_of_input m T
            then bind_err (first_elem (input_fuels m T)) (\<lambda>F.
                   Inr (sum_list [\<sigma> (f_cons N T F F1 Y D H sH).
                          F1 \<leftarrow> Fuel m, F_subst m F F1, D \<leftarrow> Day m, H \<leftarrow> Hour m, sH \<leftarrow> SubHour m]
                        * Delta_T m * Scale_H m * Scale_D m))
            else bind_err (first_elem (output_fuels m T)) (\<lambda>F1.
                   Inr (sum_list [\<sigma> (f_prod N T F1 Y D H sH).
                          D \<leftarrow> Day m, H \<leftarrow> Hour m, sH \<leftarrow> SubHour m]
                        * Delta_T m * Scale_H m * Scale_D m)))
           (\<lambda>load. py_div load inst_cap_v))"

section \<open>The iteration of calc\_LCOEnergy\<close>

definition min_inter :: int where
  "min_inter = 4"

definition max_iter :: int where
  "max_iter = 20"

text \<open>
  The while loop of \<^verbatim>\<open>calc_LCOEnergy\<close>. The state is the pair of \<^verbatim>\<open>model.delta_lcoe\<close> and
  everything else the body updates; \<open>body\<close> is one pass of the loop body (the means,
  \<^verbatim>\<open>update_tech_LCOEnergy\<close>, \<^verbatim>\<open>update_LCOEnergy\<close>), which runs over finite sets. The loop
  returns the final state and the final value of the counter \<open>i\<close>.
\<close>

function lcoe_loop ::
  "real \<Rightarrow> (pyfloat \<times> 's \<Rightarrow> pyfloat \<times> 's) \<Rightarrow> pyfloat \<times> 's \<Rightarrow> int \<Rightarrow> (pyfloat \<times> 's) \<times> int" where
  "lcoe_loop zt body s i =
     (if (pyfloat_gt (fst s) zt \<or> i < min_inter) \<and> i < max_iter
      then lcoe_loop zt body (body s) (i + 1)
      else (s, i))"
  by pat_completeness auto
termination
  by (relation "measure (\<lambda>(zt, body, s, i). nat (max_iter - i))") auto

text \<open>\<^verbatim>\<open>model.delta_lcoe = float('inf')\<close> and \<^verbatim>\<open>i = 1\<close> before the loop.\<close>

definition calc_LCOEnergy ::
  "optsys \<Rightarrow> (pyfloat \<times> 's \<Rightarrow> pyfloat \<times> 's) \<Rightarrow> 's \<Rightarrow> (pyfloat \<times> 's) \<times> int" where
  "calc_LCOEnergy self body s0 = lcoe_loop (zero_threshold self) body (PInf, s0) 1"

section \<open>Concrete instances\<close>

text \<open>Small instances on which the properties below are evaluated.\<close>

definition m_unit :: model where
  "m_unit = default_model\<lparr> Node := [''n''], Tech := [''t''], Year_All := [1], Year := [1],
     Unit_cap_switch := 1, Unit_cap := (\<lambda>N T Y. 5 / 2) \<rparr>"

definition sigma_unit :: "var \<Rightarrow> real" where
  "sigma_unit v =
     (if v = cap_add ''n'' ''t'' 1 then 15 / 2 else if v = unit_add ''n'' ''t'' 1 then 3 else 0)"

definition m_dy2 :: model where
  "m_dy2 = default_model\<lparr> Node := [''n''], Tech := [''t''], Year_All := [1, 2, 3],
     Year := [1, 3], Delta_Y := 2 \<rparr>"

definition body_converged :: "pyfloat \<times> nat \<Rightarrow> pyfloat \<times> nat" where
  "body_converged s = (Fin 0, Suc (snd s))"

definition body_diverging :: "pyfloat \<times> nat \<Rightarrow> pyfloat \<times> nat" where
  "body_diverging s = (PInf, Suc (snd s))"

definition m_sto :: model where
  "m_sto = default_model\<lparr> Node := [''n''], Tech := [''Bat''], StorageTech := [''Bat''],
     Fuel := [''El''], Year_All := [1, 2], Year := [1, 2], Day_All := [1, 2], Day := [1, 2],
     Hour_All := [0, 1], Hour := [0, 1], SubHour := [0, 1],
     E_input := (\<lambda>T F. T = ''Bat'' \<and> F = ''El''), E_output := (\<lambda>T F. T = ''Bat'' \<and> F = ''El''),
     F_subst := (\<lambda>F F1. F = F1), Eff := (\<lambda>T. 9 / 10) \<rparr>"

definition m_roll :: model where
  "m_roll = default_model\<lparr> Node := [''n''], Tech := [''Bat''], StorageTech := [''Bat''],
     Fuel := [''El''], Year_All := [1, 2], Year := [1, 2], Day_All := [5, 6], Day := [5, 6],
     Hour_All := [0, 1], Hour := [0, 1], SubHour := [0, 1],
     Window_rolling_reserve := (\<lambda>N T F. 1), F_demand := (\<lambda>N F Y D H sH. 3) \<rparr>"

text \<open>A storage technology that declares two input fuels, and one that declares none.\<close>

definition m_two :: model where
  "m_two = m_sto\<lparr> Fuel := [''El'', ''H2''],
     E_input := (\<lambda>T F. T = ''Bat'' \<and> (F = ''El'' \<or> F = ''H2'')) \<rparr>"

definition m_none :: model where
  "m_none = m_sto\<lparr> E_input := (\<lambda>T F. False) \<rparr>"

text \<open>
  A system for the full-load hours: a generator, an electrolyser whose capacity refers to
  its input, a technology without installed capacity, and a consumer of electricity that
  has no output fuel.
\<close>

definition m_flh :: model where
  "m_flh = default_model\<lparr> Node := [''n''], Tech := [''Gen'', ''Ely'', ''Idle'', ''Sink''],
     Fuel := [''El'', ''H2''], Year_All := [1], Year := [1], Day_All := [1], Day := [1],
     Hour_All := [0, 1], Hour := [0, 1], SubHour := [0],
     Scale_D_to := 365, Scale_H_to := 24,
     E_input := (\<lambda>T F. (T = ''Ely'' \<or> T = ''Sink'') \<and> F = ''El''),
     E_output := (\<lambda>T F. (T = ''Gen'' \<and> F = ''El'') \<or> (T = ''Ely'' \<and> F = ''H2'')),
     Cap_of_input := (\<lambda>T. T = ''Ely''), F_subst := (\<lambda>F F1. F = F1) \<rparr>"

definition sigma_flh :: "var \<Rightarrow> real" where
  "sigma_flh v = (case v of f_prod N T F1 Y D H sH \<Rightarrow> 3 | f_cons N T F F1 Y D H sH \<Rightarrow> 2 | _ \<Rightarrow> 0)"

definition rho_flh :: "named \<Rightarrow> real" where
  "rho_flh n = (case n of inst_cap N T Y \<Rightarrow> (if T = ''Idle'' then 0 else 4) | _ \<Rightarrow> 0)"

text \<open>
  The battery phased out: its capacity limit is 0 in the last sampled year. The battery
  with the sampled days 1 and 3 of the days 1 to 3. The battery with efficiency 0.
\<close>

definition m_phase :: model where
  "m_phase = m_sto\<lparr> Max_inst_cap := (\<lambda>N T Y. if Y = 2 then Fin 0 else PInf) \<rparr>"

definition m_gap :: model where
  "m_gap = m_sto\<lparr> Day_All := [1, 2, 3], Day := [1, 3] \<rparr>"

definition m_eff0 :: model where
  "m_eff0 = m_sto\<lparr> Eff := (\<lambda>T. 0) \<rparr>"

text \<open>
  A system for the fuel balance, without slack: a gas generator that produces electricity,
  and a fuel Heat that nothing produces or consumes. In the second system electricity is
  declared a fuel of variable renewables.
\<close>

definition m_bal :: model where
  "m_bal = default_model\<lparr> Node := [''n''], Tech := [''Gen''],
     Fuel := [''Electricity'', ''Gas'', ''Heat''],
     Year_All := [1], Year := [1], Day_All := [1], Day := [1],
     Hour_All := [0], Hour := [0], SubHour := [0], Slack_switch := 0,
     E_input := (\<lambda>T F. T = ''Gen'' \<and> F = ''Gas''),
     E_output := (\<lambda>T F. T = ''Gen'' \<and> F = ''Electricity''),
     F_subst := (\<lambda>F F1. F = F1) \<rparr>"

definition m_vre :: model where
  "m_vre = m_bal\<lparr> VreFuel := [''Electricity''] \<rparr>"

text \<open>
  A system for the discounting: one node and the sampled year 1; an opex of 1 everywhere;
  and the settings of an OptSys object whose discounting of operational costs starts at
  offset 0.
\<close>

definition m_disc :: model where
  "m_disc = default_model\<lparr> Node := [''n''], Tech := [''Gen''], Year_All := [1], Year := [1] \<rparr>"

definition rho_one :: "named \<Rightarrow> real" where
  "rho_one n = 1"

definition optsys_offset0 :: optsys where
  "optsys_offset0 = default_optsys\<lparr> start_disc_opex := 0 \<rparr>"


section \<open>Verified properties\<close>

subsection \<open>Unit sizing (C5)\<close>

lemma nonneg_integer_is_nat:
  assumes "in_domain NonNegativeIntegers x"
  shows "\<exists>k::nat. x = real k"
proof -
  from assms have a: "0 \<le> x" and b: "of_int \<lfloor>x\<rfloor> = x" by simp_all
  from a have "0 \<le> \<lfloor>x\<rfloor>" by simp
  then have "real (nat \<lfloor>x\<rfloor>) = of_int \<lfloor>x\<rfloor>" by simp
  with b show ?thesis by metis
qed

text \<open>
  C5. With \<open>Unit_cap_switch = 1\<close> the two rules return the equalities
  \<open>cap_add = unit_add * Unit_cap\<close> and \<open>cap_sub = unit_sub * Unit_cap\<close>; since
  \<open>unit_add\<close> and \<open>unit_sub\<close> are declared within the non-negative integers, every
  assignment that satisfies the constraint and respects that domain makes \<open>cap_add\<close>
  (and \<open>cap_sub\<close>) a natural multiple of \<open>Unit_cap\<close>. With any other value of the
  switch both rules return Skip: no constraint at all, not an inequality.
\<close>

theorem unit_sizing_exact:
  "(Unit_cap_switch m = 1 \<longrightarrow>
      unit_add_constraint_rule m N T Y =
        Con (Eq (Var (cap_add N T Y)) (Mul (Var (unit_add N T Y)) (PyNum (Unit_cap m N T Y))))
    \<and> unit_sub_constraint_rule m N T Y =
        Con (Eq (Var (cap_sub N T Y)) (Mul (Var (unit_sub N T Y)) (PyNum (Unit_cap m N T Y))))
    \<and> (\<forall>\<sigma> \<rho> c. unit_add_constraint_rule m N T Y = Con c \<longrightarrow> sat \<sigma> \<rho> c \<longrightarrow>
          in_domain (var_domain (unit_add N T Y)) (\<sigma> (unit_add N T Y)) \<longrightarrow>
          (\<exists>k::nat. \<sigma> (cap_add N T Y) = real k * Unit_cap m N T Y))
    \<and> (\<forall>\<sigma> \<rho> c. unit_sub_constraint_rule m N T Y = Con c \<longrightarrow> sat \<sigma> \<rho> c \<longrightarrow>
          in_domain (var_domain (unit_sub N T Y)) (\<sigma> (unit_sub N T Y)) \<longrightarrow>
          (\<exists>k::nat. \<sigma> (cap_sub N T Y) = real k * Unit_cap m N T Y)))
   \<and> (Unit_cap_switch m \<noteq> 1 \<longrightarrow>
        unit_add_constraint_rule m N T Y = Skip \<and> unit_sub_constraint_rule m N T Y = Skip)"
proof (intro conjI impI allI)
  fix \<sigma> :: "var \<Rightarrow> real" and \<rho> :: "named \<Rightarrow> real" and c
  assume sw: "Unit_cap_switch m = 1" and r: "unit_add_constraint_rule m N T Y = Con c"
    and s: "sat \<sigma> \<rho> c" and d: "in_domain (var_domain (unit_add N T Y)) (\<sigma> (unit_add N T Y))"
  from d obtain k :: nat where k: "\<sigma> (unit_add N T Y) = real k"
    using nonneg_integer_is_nat by auto
  from sw r s have "\<sigma> (cap_add N T Y) = \<sigma> (unit_add N T Y) * Unit_cap m N T Y"
    by (auto simp: unit_add_constraint_rule_def)
  with k show "\<exists>k::nat. \<sigma> (cap_add N T Y) = real k * Unit_cap m N T Y" by auto
next
  fix \<sigma> :: "var \<Rightarrow> real" and \<rho> :: "named \<Rightarrow> real" and c
  assume sw: "Unit_cap_switch m = 1" and r: "unit_sub_constraint_rule m N T Y = Con c"
    and s: "sat \<sigma> \<rho> c" and d: "in_domain (var_domain (unit_sub N T Y)) (\<sigma> (unit_sub N T Y))"
  from d obtain k :: nat where k: "\<sigma> (unit_sub N T Y) = real k"
    using nonneg_integer_is_nat by auto
  from sw r s have "\<sigma> (cap_sub N T Y) = \<sigma> (unit_sub N T Y) * Unit_cap m N T Y"
    by (auto simp: unit_sub_constraint_rule_def)
  with k show "\<exists>k::nat. \<sigma> (cap_sub N T Y) = real k * Unit_cap m N T Y" by auto
qed (simp_all add: unit_add_constraint_rule_def unit_sub_constraint_rule_def)

text \<open>
  The switch on: unit size 2.5, three units, added capacity 7.5. The switch off (the
  default): both rules skip.
\<close>

theorem unit_sizing_exact_witness:
  "Unit_cap_switch m_unit = 1
   \<and> unit_add_constraint_rule m_unit ''n'' ''t'' 1 =
       Con (Eq (Var (cap_add ''n'' ''t'' 1)) (Mul (Var (unit_add ''n'' ''t'' 1)) (PyNum (5 / 2))))
   \<and> sat sigma_unit (\<lambda>n. 0)
       (Eq (Var (cap_add ''n'' ''t'' 1)) (Mul (Var (unit_add ''n'' ''t'' 1)) (PyNum (5 / 2))))
   \<and> in_domain (var_domain (unit_add ''n'' ''t'' 1)) (sigma_unit (unit_add ''n'' ''t'' 1))
   \<and> (\<exists>k::nat. sigma_unit (cap_add ''n'' ''t'' 1) = real k * (5 / 2))
   \<and> Unit_cap_switch default_model \<noteq> 1
   \<and> unit_add_constraint_rule default_model ''n'' ''t'' 1 = Skip
   \<and> unit_sub_constraint_rule default_model ''n'' ''t'' 1 = Skip"
proof -
  have sw: "Unit_cap_switch m_unit = 1" and uc: "Unit_cap m_unit ''n'' ''t'' 1 = 5 / 2"
    by (simp_all add: m_unit_def default_model_def)
  have off: "Unit_cap_switch default_model \<noteq> 1"
    by (simp add: default_model_def)
  have s: "sat sigma_unit (\<lambda>n. 0)
       (Eq (Var (cap_add ''n'' ''t'' 1)) (Mul (Var (unit_add ''n'' ''t'' 1)) (PyNum (5 / 2))))"
    by (simp add: sigma_unit_def)
  have d: "in_domain (var_domain (unit_add ''n'' ''t'' 1)) (sigma_unit (unit_add ''n'' ''t'' 1))"
    by (simp add: sigma_unit_def)
  note on = unit_sizing_exact [of m_unit "''n''" "''t''" 1]
  note no = unit_sizing_exact [of default_model "''n''" "''t''" 1]
  from on sw uc have r: "unit_add_constraint_rule m_unit ''n'' ''t'' 1 =
       Con (Eq (Var (cap_add ''n'' ''t'' 1)) (Mul (Var (unit_add ''n'' ''t'' 1)) (PyNum (5 / 2))))"
    by simp
  from on sw r s d uc have k: "\<exists>k::nat. sigma_unit (cap_add ''n'' ''t'' 1) = real k * (5 / 2)"
    by metis
  from no off have sk: "unit_add_constraint_rule default_model ''n'' ''t'' 1 = Skip"
     "unit_sub_constraint_rule default_model ''n'' ''t'' 1 = Skip" by simp_all
  from sw r s d k off sk show ?thesis by blast
qed

subsection \<open>Capacity and storage-volume motion (C3)\<close>

text \<open>
  C3, as the claim states it, at a model with a year step of two (sampled years 1 and 3,
  start year 1): the installed capacity of year 3 is built from the installed capacity
  of year 1, not from that of year \<open>3 - 1\<close>.
\<close>

theorem cap_motion_counterexample:
  "3 \<in> set (Year m_dy2) \<and> int (Y_start m_dy2) < 3
   \<and> cap_motion_rule m_dy2 ''n'' ''t'' 3
       = Inr (Sub (Add (Named (inst_cap ''n'' ''t'' 1)) (Var (cap_add ''n'' ''t'' 3)))
                  (Var (cap_sub ''n'' ''t'' 3)))
   \<and> cap_motion_rule m_dy2 ''n'' ''t'' 3
       \<noteq> Inr (Sub (Add (Named (inst_cap ''n'' ''t'' (3 - 1))) (Var (cap_add ''n'' ''t'' 3)))
                  (Var (cap_sub ''n'' ''t'' 3)))"
  by (simp add: cap_motion_rule_def m_dy2_def default_model_def)

text \<open>
  C3, amended. At the start year the installed capacity is the added capacity. At every
  other year \<open>Y\<close> whose predecessor \<open>Y - Delta_Y\<close> is a sampled year, the installed
  capacity is that of year \<open>Y - Delta_Y\<close> plus the addition minus the subtraction of year
  \<open>Y\<close>, under every valuation; when the predecessor is not sampled the rule raises
  KeyError. The storage volume follows the identical rule. With the default
  \<open>Delta_Y = 1\<close> the predecessor is \<open>Y - 1\<close>.
\<close>

theorem motion_recurrence:
  "(Y = int (Y_start m) \<longrightarrow>
      cap_motion_rule m N T Y = Inr (Var (cap_add N T Y))
    \<and> storage_vol_motion_rule m N T Y = Inr (Var (storage_vol_add N T Y)))
   \<and> (Y \<noteq> int (Y_start m) \<and> Y - int (Delta_Y m) \<in> set (Year m) \<longrightarrow>
      (\<exists>e. cap_motion_rule m N T Y = Inr e
         \<and> (\<forall>\<sigma> \<rho>. eval \<sigma> \<rho> e
              = \<rho> (inst_cap N T (Y - int (Delta_Y m))) + \<sigma> (cap_add N T Y) - \<sigma> (cap_sub N T Y)))
    \<and> (\<exists>e. storage_vol_motion_rule m N T Y = Inr e
         \<and> (\<forall>\<sigma> \<rho>. eval \<sigma> \<rho> e
              = \<rho> (inst_storage_vol N T (Y - int (Delta_Y m)))
                + \<sigma> (storage_vol_add N T Y) - \<sigma> (storage_vol_sub N T Y))))
   \<and> (Y \<noteq> int (Y_start m) \<and> Y - int (Delta_Y m) \<notin> set (Year m) \<longrightarrow>
      cap_motion_rule m N T Y = Inl KeyError \<and> storage_vol_motion_rule m N T Y = Inl KeyError)"
  by (simp add: cap_motion_rule_def storage_vol_motion_rule_def)

theorem motion_recurrence_witness:
  "3 \<noteq> int (Y_start m_dy2) \<and> 3 - int (Delta_Y m_dy2) \<in> set (Year m_dy2)
   \<and> 1 = int (Y_start m_dy2)
   \<and> cap_motion_rule m_dy2 ''n'' ''t'' 1 = Inr (Var (cap_add ''n'' ''t'' 1))
   \<and> (\<exists>e. cap_motion_rule m_dy2 ''n'' ''t'' 3 = Inr e
         \<and> (\<forall>\<sigma> \<rho>. eval \<sigma> \<rho> e
              = \<rho> (inst_cap ''n'' ''t'' 1) + \<sigma> (cap_add ''n'' ''t'' 3) - \<sigma> (cap_sub ''n'' ''t'' 3)))
   \<and> 2 \<noteq> int (Y_start m_dy2) \<and> 2 - int (Delta_Y m_dy2) \<notin> set (Year m_dy2)
   \<and> cap_motion_rule m_dy2 ''n'' ''t'' 2 = Inl KeyError"
proof -
  have a: "int (Y_start m_dy2) = 1" "int (Delta_Y m_dy2) = 2" "set (Year m_dy2) = {1, 3}"
    by (simp_all add: m_dy2_def default_model_def)
  from a motion_recurrence [of 1 m_dy2 "''n''" "''t''"]
    motion_recurrence [of 3 m_dy2 "''n''" "''t''"]
    motion_recurrence [of 2 m_dy2 "''n''" "''t''"]
  show ?thesis by simp
qed

subsection \<open>Helper facts about the Python helpers\<close>

lemma bind_err_Inr [simp]: "bind_err (Inr v) f = f v"
  by (simp add: bind_err_def)

lemma bind_err_Inl [simp]: "bind_err (Inl e) f = Inl e"
  by (simp add: bind_err_def)

lemma py_max_nonempty [simp]: "xs \<noteq> [] \<Longrightarrow> py_max xs = Inr (Max (set xs))"
  by (simp add: py_max_def)

lemma py_min_nonempty [simp]: "xs \<noteq> [] \<Longrightarrow> py_min xs = Inr (Min (set xs))"
  by (simp add: py_min_def)

lemma first_elem_Cons [simp]: "first_elem (x # xs) = Inr x"
  by (simp add: first_elem_def)

lemma first_elem_Nil [simp]: "first_elem [] = Inl IndexError"
  by (simp add: first_elem_def)

lemma py_add_eval [simp]: "eval \<sigma> \<rho> (py_add a b) = eval \<sigma> \<rho> a + eval \<sigma> \<rho> b"
  by (cases "(a, b)" rule: py_add.cases) simp_all

lemma foldl_py_add_eval:
  "eval \<sigma> \<rho> (foldl py_add a xs) = eval \<sigma> \<rho> a + (\<Sum>x\<leftarrow>xs. eval \<sigma> \<rho> x)"
  by (induction xs arbitrary: a) (simp_all add: algebra_simps)

lemma py_sum_eval: "eval \<sigma> \<rho> (py_sum xs) = (\<Sum>x\<leftarrow>xs. eval \<sigma> \<rho> x)"
  by (simp add: py_sum_def foldl_py_add_eval)

subsection \<open>The iteration of calc\_LCOEnergy (C7)\<close>

text \<open>
  The loop always terminates (it is a total function). Started with \<open>i = 1\<close>, it stops
  with the counter between \<open>min_inter\<close> and \<open>max_iter\<close>; the body has then run
  \<open>i - 1\<close> times, that is between 3 and 19 times.
\<close>

lemma lcoe_loop_result:
  "lcoe_loop zt body s i = (s', j) \<Longrightarrow>
     i \<le> j \<and> s' = (body ^^ nat (j - i)) s \<and> (i \<le> max_iter \<longrightarrow> j \<le> max_iter)
     \<and> \<not> ((pyfloat_gt (fst s') zt \<or> j < min_inter) \<and> j < max_iter)"
proof (induction zt body s i rule: lcoe_loop.induct)
  case (1 zt body s i)
  show ?case
  proof (cases "(pyfloat_gt (fst s) zt \<or> i < min_inter) \<and> i < max_iter")
    case True
    with "1.prems" have r: "lcoe_loop zt body (body s) (i + 1) = (s', j)"
      by (subst (asm) lcoe_loop.simps) simp
    from "1.IH" [OF True r] have ih: "i + 1 \<le> j" "s' = (body ^^ nat (j - (i + 1))) (body s)"
      "i + 1 \<le> max_iter \<longrightarrow> j \<le> max_iter"
      "\<not> ((pyfloat_gt (fst s') zt \<or> j < min_inter) \<and> j < max_iter)" by blast+
    from ih(1) have "nat (j - i) = Suc (nat (j - (i + 1)))" by simp
    with ih(2) have "s' = (body ^^ nat (j - i)) s" by (simp add: funpow_swap1)
    with ih True show ?thesis by simp
  next
    case False
    with "1.prems" have "s' = s" "j = i"
      by (subst (asm) lcoe_loop.simps, simp)+
    with False show ?thesis by simp
  qed
qed

lemma lcoe_loop_min_iterations:
  assumes "lcoe_loop zt body s 1 = (s', j)"
  shows "min_inter \<le> j \<and> j \<le> max_iter"
proof -
  from lcoe_loop_result [OF assms] have a: "1 \<le> max_iter \<longrightarrow> j \<le> max_iter"
    and b: "\<not> ((pyfloat_gt (fst s') zt \<or> j < min_inter) \<and> j < max_iter)" by blast+
  from a have "j \<le> max_iter" by (simp add: max_iter_def)
  moreover from b have "min_inter \<le> j" by (auto simp: min_inter_def max_iter_def)
  ultimately show ?thesis by simp
qed

text \<open>
  C7. The claim asks for at least 4 passes before a stop on convergence and for a cap of
  20 passes. A body that reports convergence from its first pass on is left after 3
  passes (the counter of passes in the state is 3, the loop counter 4); a body that never
  converges is left after 19 passes (the loop counter 20).
\<close>

theorem lcoe_iteration_count:
  "calc_LCOEnergy default_optsys body_converged 0 = ((Fin 0, 3), 4)
   \<and> calc_LCOEnergy default_optsys body_diverging 0 = ((PInf, 19), 20)"
  by (simp add: calc_LCOEnergy_def default_optsys_def body_converged_def body_diverging_def
      min_inter_def max_iter_def)

subsection \<open>Rolling-reserve forward walk (C6)\<close>

lemma next_time_step_eq:
  assumes "SubHour m \<noteq> []" "Hour m \<noteq> []" "Day m \<noteq> []" "Year m \<noteq> []"
  shows "next_time_step m Y D H sH = Inr (forward_step m (Y, D, H, sH))"
proof -
  define minsH maxsH minH maxH minD maxD maxY where
    "minsH = Min (set (SubHour m))" and "maxsH = Max (set (SubHour m))" and
    "minH = Min (set (Hour m))" and "maxH = Max (set (Hour m))" and
    "minD = Min (set (Day m))" and "maxD = Max (set (Day m))" and
    "maxY = Max (set (Year m))"
  have b: "py_min (SubHour m) = Inr minsH" "py_max (SubHour m) = Inr maxsH"
    "py_min (Hour m) = Inr minH" "py_max (Hour m) = Inr maxH"
    "py_min (Day m) = Inr minD" "py_max (Day m) = Inr maxD" "py_max (Year m) = Inr maxY"
    using assms
    by (simp_all add: minsH_def maxsH_def minH_def maxH_def minD_def maxD_def maxY_def)
  have "next_time_step m Y D H sH = Inr
     (if sH + int (Delta_sH m) \<le> maxsH then (Y, D, H, sH + int (Delta_sH m))
      else if H + int (Delta_H m) \<le> maxH then (Y, D, H + int (Delta_H m), minsH)
      else if D + int (Delta_D m) \<le> maxD then (Y, D + int (Delta_D m), minH, minsH)
      else if Y + int (Delta_Y m) \<le> maxY then (Y + int (Delta_Y m), minD, minH, minsH)
      else (minD, minD, minH, minsH))"
    unfolding next_time_step_def b by (simp add: not_less)
  then show ?thesis
    by (simp only: forward_step_def prod.case minsH_def maxsH_def minH_def maxH_def minD_def
        maxD_def maxY_def)
qed

lemma F_demand_lookup_eq:
  "F_demand_lookup m N F t =
     (if demand_index m t
      then Inr (case t of (Y, D, H, sH) \<Rightarrow> F_demand m N F Y D H sH) else Inl KeyError)"
  by (simp add: F_demand_lookup_def demand_index_def split: prod.splits)

lemma rolling_loop_walk:
  assumes "SubHour m \<noteq> []" "Hour m \<noteq> []" "Day m \<noteq> []" "Year m \<noteq> []"
  shows "rolling_loop m N F n t s =
     (if \<forall>t' \<in> set (forward_walk m n t). demand_index m t'
      then Inr (s + (\<Sum>t'\<leftarrow>forward_walk m n t.
                       case t' of (Y, D, H, sH) \<Rightarrow> F_demand m N F Y D H sH))
      else Inl KeyError)"
proof (induction n arbitrary: t s)
  case 0
  then show ?case by simp
next
  case (Suc n)
  obtain Y D H sH where t: "t = (Y, D, H, sH)" by (cases t) auto
  have st: "next_time_step m Y D H sH = Inr (forward_step m t)"
    unfolding t by (rule next_time_step_eq [OF assms])
  show ?case
  proof (cases "demand_index m (forward_step m t)")
    case True
    then show ?thesis
      using Suc.IH [of "forward_step m t"] st
      by (simp add: t F_demand_lookup_eq algebra_simps)
  next
    case False
    then show ?thesis
      using st by (simp add: t F_demand_lookup_eq)
  qed
qed

text \<open>
  C6. On non-empty sampled sets, one step of the forward walk inside the rule advances
  SubHour; past the sampled maximum of SubHour it resets SubHour to its minimum and
  advances Hour, then likewise Day, then Year; and when the advanced Year exceeds the
  last sampled Year, the Year coordinate receives the minimum of the Day set (as does the
  Day coordinate). With a positive window and a positive reserve factor the rule returns
  the demand summed over the \<open>Window_rolling_reserve * len(SubHour)\<close> time stamps of this
  walk that follow the index of the expression, times the reserve factor and
  \<open>Delta_T\<close>; a time stamp of the walk that is no index of the demand raises KeyError.
\<close>

theorem rolling_reserve_forward_walk:
  assumes "SubHour m \<noteq> []" "Hour m \<noteq> []" "Day m \<noteq> []" "Year m \<noteq> []"
  shows "next_time_step m Y D H sH = Inr
     (if sH + int (Delta_sH m) \<le> Max (set (SubHour m)) then (Y, D, H, sH + int (Delta_sH m))
      else if H + int (Delta_H m) \<le> Max (set (Hour m))
        then (Y, D, H + int (Delta_H m), Min (set (SubHour m)))
      else if D + int (Delta_D m) \<le> Max (set (Day m))
        then (Y, D + int (Delta_D m), Min (set (Hour m)), Min (set (SubHour m)))
      else if Y + int (Delta_Y m) \<le> Max (set (Year m))
        then (Y + int (Delta_Y m), Min (set (Day m)), Min (set (Hour m)), Min (set (SubHour m)))
      else (Min (set (Day m)), Min (set (Day m)), Min (set (Hour m)), Min (set (SubHour m))))
    \<and> next_time_step m Y D H sH = Inr (forward_step m (Y, D, H, sH))
    \<and> storage_energy_level_rolling_reserve_rule m N StoreT F Y D H sH =
        (if Window_rolling_reserve m N StoreT F > 0 \<and> F_rolling_reserve m N StoreT F > 0
         then if \<forall>t \<in> set (forward_walk m
                     (Window_rolling_reserve m N StoreT F * length (SubHour m)) (Y, D, H, sH)).
                   demand_index m t
              then Inr ((\<Sum>t\<leftarrow>forward_walk m
                           (Window_rolling_reserve m N StoreT F * length (SubHour m))
                           (Y, D, H, sH).
                         case t of (Y', D', H', sH') \<Rightarrow> F_demand m N F Y' D' H' sH')
                        * F_rolling_reserve m N StoreT F * Delta_T m)
              else Inl KeyError
         else Inr 0)"
proof (intro conjI)
  have e: "next_time_step m Y D H sH = Inr (forward_step m (Y, D, H, sH))"
    by (rule next_time_step_eq [OF assms])
  then show "next_time_step m Y D H sH = Inr (forward_step m (Y, D, H, sH))" .
  from e show "next_time_step m Y D H sH = Inr
     (if sH + int (Delta_sH m) \<le> Max (set (SubHour m)) then (Y, D, H, sH + int (Delta_sH m))
      else if H + int (Delta_H m) \<le> Max (set (Hour m))
        then (Y, D, H + int (Delta_H m), Min (set (SubHour m)))
      else if D + int (Delta_D m) \<le> Max (set (Day m))
        then (Y, D + int (Delta_D m), Min (set (Hour m)), Min (set (SubHour m)))
      else if Y + int (Delta_Y m) \<le> Max (set (Year m))
        then (Y + int (Delta_Y m), Min (set (Day m)), Min (set (Hour m)), Min (set (SubHour m)))
      else (Min (set (Day m)), Min (set (Day m)), Min (set (Hour m)), Min (set (SubHour m))))"
    by (simp only: forward_step_def prod.case)
  show "storage_energy_level_rolling_reserve_rule m N StoreT F Y D H sH =
        (if Window_rolling_reserve m N StoreT F > 0 \<and> F_rolling_reserve m N StoreT F > 0
         then if \<forall>t \<in> set (forward_walk m
                     (Window_rolling_reserve m N StoreT F * length (SubHour m)) (Y, D, H, sH)).
                   demand_index m t
              then Inr ((\<Sum>t\<leftarrow>forward_walk m
                           (Window_rolling_reserve m N StoreT F * length (SubHour m))
                           (Y, D, H, sH).
                         case t of (Y', D', H', sH') \<Rightarrow> F_demand m N F Y' D' H' sH')
                        * F_rolling_reserve m N StoreT F * Delta_T m)
              else Inl KeyError
         else Inr 0)"
    unfolding storage_energy_level_rolling_reserve_rule_def rolling_loop_walk [OF assms]
    by simp
qed


lemma m_roll_sets:
  "SubHour m_roll = [0, 1]" "Hour m_roll = [0, 1]" "Day m_roll = [5, 6]" "Year m_roll = [1, 2]"
  "Year_All m_roll = [1, 2]" "Day_All m_roll = [5, 6]" "Hour_All m_roll = [0, 1]"
  "Delta_sH m_roll = 1" "Delta_H m_roll = 1" "Delta_D m_roll = 1" "Delta_Y m_roll = 1"
  "Window_rolling_reserve m_roll N T F = 1" "F_rolling_reserve m_roll N T F = 1"
  "F_demand m_roll N F Y D H sH = 3" "Delta_T m_roll = 1 / 2"
  by (simp_all add: m_roll_def default_model_def Delta_T_def)

text \<open>
  Years 1 and 2, days 5 and 6, hours and sub-hours 0 and 1, a window of one hour and a
  demand of 3: the four roll-overs, and the fold from the last time stamp of year 2 to
  the year coordinate 5, the first day. Started one step before the end of year 1 the
  sum runs into year 2; started one step before the end of year 2 the folded year
  coordinate 5 is no element of Year\_All, so the demand lookup raises KeyError.
\<close>

theorem rolling_reserve_forward_walk_witness:
  "SubHour m_roll \<noteq> [] \<and> Hour m_roll \<noteq> [] \<and> Day m_roll \<noteq> [] \<and> Year m_roll \<noteq> []
   \<and> next_time_step m_roll 1 5 0 0 = Inr (1, 5, 0, 1)
   \<and> next_time_step m_roll 1 5 0 1 = Inr (1, 5, 1, 0)
   \<and> next_time_step m_roll 1 5 1 1 = Inr (1, 6, 0, 0)
   \<and> next_time_step m_roll 1 6 1 1 = Inr (2, 5, 0, 0)
   \<and> next_time_step m_roll 2 6 1 1 = Inr (5, 5, 0, 0)
   \<and> forward_walk m_roll 2 (1, 6, 1, 0) = [(1, 6, 1, 1), (2, 5, 0, 0)]
   \<and> storage_energy_level_rolling_reserve_rule m_roll ''n'' ''Bat'' ''El'' 1 6 1 0 = Inr 3
   \<and> forward_walk m_roll 2 (2, 6, 1, 0) = [(2, 6, 1, 1), (5, 5, 0, 0)]
   \<and> storage_energy_level_rolling_reserve_rule m_roll ''n'' ''Bat'' ''El'' 2 6 1 0 = Inl KeyError"
proof -
  have ne: "SubHour m_roll \<noteq> []" "Hour m_roll \<noteq> []" "Day m_roll \<noteq> []" "Year m_roll \<noteq> []"
    by (simp_all add: m_roll_sets)
  note st = rolling_reserve_forward_walk [OF ne, THEN conjunct1]
  note ru = rolling_reserve_forward_walk [OF ne, THEN conjunct2, THEN conjunct2]
  have w: "forward_walk m_roll 2 (1, 6, 1, 0) = [(1, 6, 1, 1), (2, 5, 0, 0)]"
    "forward_walk m_roll 2 (2, 6, 1, 0) = [(2, 6, 1, 1), (5, 5, 0, 0)]"
    by (simp_all add: numeral_2_eq_2 forward_step_def m_roll_sets)
  have n: "Window_rolling_reserve m_roll ''n'' ''Bat'' ''El'' * length (SubHour m_roll) = 2"
    by (simp add: m_roll_sets)
  have "next_time_step m_roll 1 5 0 0 = Inr (1, 5, 0, 1)"
    using st [of 1 5 0 0] by (simp add: m_roll_sets)
  moreover have "next_time_step m_roll 1 5 0 1 = Inr (1, 5, 1, 0)"
    using st [of 1 5 0 1] by (simp add: m_roll_sets)
  moreover have "next_time_step m_roll 1 5 1 1 = Inr (1, 6, 0, 0)"
    using st [of 1 5 1 1] by (simp add: m_roll_sets)
  moreover have "next_time_step m_roll 1 6 1 1 = Inr (2, 5, 0, 0)"
    using st [of 1 6 1 1] by (simp add: m_roll_sets)
  moreover have "next_time_step m_roll 2 6 1 1 = Inr (5, 5, 0, 0)"
    using st [of 2 6 1 1] by (simp add: m_roll_sets)
  moreover have "storage_energy_level_rolling_reserve_rule m_roll ''n'' ''Bat'' ''El'' 1 6 1 0
      = Inr 3"
    using ru [of "''n''" "''Bat''" "''El''" 1 6 1 0] unfolding n w
    by (simp add: m_roll_sets demand_index_def)
  moreover have "storage_energy_level_rolling_reserve_rule m_roll ''n'' ''Bat'' ''El'' 2 6 1 0
      = Inl KeyError"
    using ru [of "''n''" "''Bat''" "''El''" 2 6 1 0] unfolding n w
    by (simp add: m_roll_sets demand_index_def)
  ultimately show ?thesis using ne w by simp
qed

subsection \<open>Storage cyclic consistency (C1)\<close>

lemma m_sto_facts:
  "SubHour m_sto = [0, 1]" "Hour m_sto = [0, 1]" "Day m_sto = [1, 2]" "Year m_sto = [1, 2]"
  "Delta_sH m_sto = 1" "Delta_H m_sto = 1" "Delta_D m_sto = 1" "Delta_Y m_sto = 1"
  "Y_start m_sto = 1" "Fuel m_sto = [''El'']" "Eff m_sto ''Bat'' = 9 / 10"
  "Start_storage_level m_sto ''n'' ''Bat'' = 1 / 2"
  "input_fuels m_sto ''Bat'' = [''El'']" "F_subst m_sto ''El'' ''El''"
  "subst_rowsum m_sto ''El'' = 1" "storage_allowed m_sto ''n'' ''Bat'' Y"
  "Delta_T m_sto = 1 / 2"
  by (simp_all add: m_sto_def default_model_def input_fuels_def subst_rowsum_def
      storage_allowed_def Delta_T_def)

lemma m_phase_facts:
  "SubHour m_phase = [0, 1]" "Hour m_phase = [0, 1]" "Day m_phase = [1, 2]"
  "Year m_phase = [1, 2]"
  "Delta_sH m_phase = 1" "Delta_H m_phase = 1" "Delta_D m_phase = 1" "Delta_Y m_phase = 1"
  "Y_start m_phase = 1" "Fuel m_phase = [''El'']" "Eff m_phase ''Bat'' = 9 / 10"
  "Start_storage_level m_phase ''n'' ''Bat'' = 1 / 2"
  "input_fuels m_phase ''Bat'' = [''El'']" "F_subst m_phase ''El'' ''El''"
  "subst_rowsum m_phase ''El'' = 1" "storage_allowed m_phase ''n'' ''Bat'' Y = (Y \<noteq> 2)"
  "Delta_T m_phase = 1 / 2"
  by (simp_all add: m_phase_def m_sto_def default_model_def input_fuels_def subst_rowsum_def
      storage_allowed_def Delta_T_def)

text \<open>
  Claim C1, as stated, fails when the limits of a storage technology are positive in an
  earlier sampled year and 0 in the last one: the balance rule reads the limits of the
  year of its index and constrains the levels of year 1, starting from the start level;
  the end rule and the start rule read the limits of the last sampled year and are
  skipped, so no constraint relates the last level and the start level.
\<close>

theorem storage_phase_out_counterexample:
  "storage_allowed m_phase ''n'' ''Bat'' 1
   \<and> input_fuels m_phase ''Bat'' = [''El'']
   \<and> F_subst m_phase ''El'' ''El'' \<and> subst_rowsum m_phase ''El'' = 1
   \<and> storage_energy_balance_constraint_rule m_phase ''n'' ''Bat'' ''El'' 1 1 0 0 =
       Inr (Con (Eq (Var (storage_energy_level ''n'' ''Bat'' ''El'' 1 1 0 0))
         (Sub (Add (Var (start_storage_energy_level ''n'' ''Bat'' ''El''))
                   (Mul (Mul (Var (f_cons ''n'' ''Bat'' ''El'' ''El'' 1 1 0 0)) (PyNum (9 / 10)))
                        (PyNum (1 / 2))))
              (Mul (Div (Var (f_prod ''n'' ''Bat'' ''El'' 1 1 0 0)) (PyNum (9 / 10)))
                   (PyNum (1 / 2))))))
   \<and> end_storage_energy_level_constraint_rule m_phase ''n'' ''Bat'' ''El'' = Inr Skip
   \<and> start_storage_energy_level_constraint_rule m_phase ''n'' ''Bat'' = Inr Skip"
  by (simp add: storage_energy_balance_constraint_rule_def
      end_storage_energy_level_constraint_rule_def
      start_storage_energy_level_constraint_rule_def previous_time_stamp_def pre_level_def
      m_phase_facts)

text \<open>
  Claim C1, amended. Let the sampled sets be non-empty and let \<open>F\<close> be the first declared
  input fuel of the storage technology. When the capacity and volume limits of the last
  sampled year are positive and \<open>F1\<close> is a settlement fuel (row sum 1) compatible with
  \<open>F\<close>, the end rule returns the constraint that equates the level at the last sampled
  (Year, Day, Hour, SubHour) with the start level of \<open>F1\<close>; otherwise it is skipped. When
  the limits of the last sampled year are positive, the start rule returns the
  constraint that equates the sum of the start levels over the compatible settlement
  fuels with \<open>Start_storage_level\<close> times the installed storage volume of the first
  sampled year; otherwise it is skipped. The limits of the other years are not read.
\<close>

theorem storage_cyclic_constraints:
  assumes "Year m \<noteq> []" "Day m \<noteq> []" "Hour m \<noteq> []" "SubHour m \<noteq> []"
    and "input_fuels m StoreT = F # Fs"
  shows "end_storage_energy_level_constraint_rule m N StoreT F1 =
       (if storage_allowed m N StoreT (Max (set (Year m))) \<and> F_subst m F F1
           \<and> subst_rowsum m F1 = 1
        then Inr (Con (Eq
               (Var (storage_energy_level N StoreT F1 (Max (set (Year m))) (Max (set (Day m)))
                      (Max (set (Hour m))) (Max (set (SubHour m)))))
               (Var (start_storage_energy_level N StoreT F1))))
        else Inr Skip)
     \<and> start_storage_energy_level_constraint_rule m N StoreT =
       (if storage_allowed m N StoreT (Max (set (Year m)))
        then Inr (Con (Eq
               (py_sum (map (\<lambda>F1'. Var (start_storage_energy_level N StoreT F1'))
                  (filter (\<lambda>F1'. F_subst m F F1' \<and> subst_rowsum m F1' = 1) (Fuel m))))
               (Mul (PyNum (Start_storage_level m N StoreT))
                    (Named (inst_storage_vol N StoreT (Min (set (Year m))))))))
        else Inr Skip)
     \<and> (\<forall>\<sigma> \<rho>. sat \<sigma> \<rho> (Eq
               (Var (storage_energy_level N StoreT F1 (Max (set (Year m))) (Max (set (Day m)))
                      (Max (set (Hour m))) (Max (set (SubHour m)))))
               (Var (start_storage_energy_level N StoreT F1)))
           = (\<sigma> (storage_energy_level N StoreT F1 (Max (set (Year m))) (Max (set (Day m)))
                      (Max (set (Hour m))) (Max (set (SubHour m))))
              = \<sigma> (start_storage_energy_level N StoreT F1)))
     \<and> (\<forall>\<sigma> \<rho>. sat \<sigma> \<rho> (Eq
               (py_sum (map (\<lambda>F1'. Var (start_storage_energy_level N StoreT F1'))
                  (filter (\<lambda>F1'. F_subst m F F1' \<and> subst_rowsum m F1' = 1) (Fuel m))))
               (Mul (PyNum (Start_storage_level m N StoreT))
                    (Named (inst_storage_vol N StoreT (Min (set (Year m)))))))
           = ((\<Sum>F1'\<leftarrow>filter (\<lambda>F1'. F_subst m F F1' \<and> subst_rowsum m F1' = 1) (Fuel m).
                    \<sigma> (start_storage_energy_level N StoreT F1'))
              = Start_storage_level m N StoreT
                * \<rho> (inst_storage_vol N StoreT (Min (set (Year m))))))"
  using assms
  by (simp add: end_storage_energy_level_constraint_rule_def
      start_storage_energy_level_constraint_rule_def py_sum_eval comp_def)

text \<open>
  The battery with unlimited capacity in both years gets both constraints; the battery
  phased out in year 2 gets neither.
\<close>

theorem storage_cyclic_constraints_witness:
  "Year m_sto \<noteq> [] \<and> Day m_sto \<noteq> [] \<and> Hour m_sto \<noteq> [] \<and> SubHour m_sto \<noteq> []
   \<and> input_fuels m_sto ''Bat'' = [''El'']
   \<and> end_storage_energy_level_constraint_rule m_sto ''n'' ''Bat'' ''El'' =
       Inr (Con (Eq (Var (storage_energy_level ''n'' ''Bat'' ''El'' 2 2 1 1))
                    (Var (start_storage_energy_level ''n'' ''Bat'' ''El''))))
   \<and> start_storage_energy_level_constraint_rule m_sto ''n'' ''Bat'' =
       Inr (Con (Eq (py_sum [Var (start_storage_energy_level ''n'' ''Bat'' ''El'')])
                    (Mul (PyNum (1 / 2)) (Named (inst_storage_vol ''n'' ''Bat'' 1)))))
   \<and> Year m_phase \<noteq> [] \<and> Day m_phase \<noteq> [] \<and> Hour m_phase \<noteq> [] \<and> SubHour m_phase \<noteq> []
   \<and> input_fuels m_phase ''Bat'' = [''El'']
   \<and> end_storage_energy_level_constraint_rule m_phase ''n'' ''Bat'' ''El'' = Inr Skip
   \<and> start_storage_energy_level_constraint_rule m_phase ''n'' ''Bat'' = Inr Skip"
proof -
  have h: "Year m_sto \<noteq> []" "Day m_sto \<noteq> []" "Hour m_sto \<noteq> []" "SubHour m_sto \<noteq> []"
    "input_fuels m_sto ''Bat'' = ''El'' # []"
    by (simp_all add: m_sto_facts)
  have g: "Year m_phase \<noteq> []" "Day m_phase \<noteq> []" "Hour m_phase \<noteq> []"
    "SubHour m_phase \<noteq> []" "input_fuels m_phase ''Bat'' = ''El'' # []"
    by (simp_all add: m_phase_facts)
  from storage_cyclic_constraints [OF h, of "''n''" "''El''"]
    storage_cyclic_constraints [OF g, of "''n''" "''El''"] h g
  show ?thesis
    by (simp add: m_sto_facts m_phase_facts)
qed

subsection \<open>Storage energy balance (C2)\<close>

lemma previous_time_stamp_eq:
  assumes "SubHour m \<noteq> []" "Hour m \<noteq> []" "Day m \<noteq> []"
  shows "previous_time_stamp m Y D H sH = Inr
     (if Min (set (SubHour m)) \<le> sH - int (Delta_sH m) then (Y, D, H, sH - int (Delta_sH m))
      else if Min (set (Hour m)) \<le> H - int (Delta_H m)
        then (Y, D, H - int (Delta_H m), Max (set (SubHour m)))
      else if Min (set (Day m)) \<le> D - int (Delta_D m)
        then (Y, D - int (Delta_D m), Max (set (Hour m)), Max (set (SubHour m)))
      else (Y - int (Delta_Y m), Max (set (Day m)), Max (set (Hour m)), Max (set (SubHour m))))"
proof -
  define minsH maxsH minH maxH minD maxD where
    "minsH = Min (set (SubHour m))" and "maxsH = Max (set (SubHour m))" and
    "minH = Min (set (Hour m))" and "maxH = Max (set (Hour m))" and
    "minD = Min (set (Day m))" and "maxD = Max (set (Day m))"
  have b: "py_min (SubHour m) = Inr minsH" "py_max (SubHour m) = Inr maxsH"
    "py_min (Hour m) = Inr minH" "py_max (Hour m) = Inr maxH"
    "py_min (Day m) = Inr minD" "py_max (Day m) = Inr maxD"
    using assms by (simp_all add: minsH_def maxsH_def minH_def maxH_def minD_def maxD_def)
  have "previous_time_stamp m Y D H sH = Inr
     (if minsH \<le> sH - int (Delta_sH m) then (Y, D, H, sH - int (Delta_sH m))
      else if minH \<le> H - int (Delta_H m) then (Y, D, H - int (Delta_H m), maxsH)
      else if minD \<le> D - int (Delta_D m) then (Y, D - int (Delta_D m), maxH, maxsH)
      else (Y - int (Delta_Y m), maxD, maxH, maxsH))"
    unfolding previous_time_stamp_def b by (simp add: not_less)
  then show ?thesis
    by (simp only: minsH_def maxsH_def minH_def maxH_def minD_def maxD_def)
qed

lemma m_gap_facts:
  "SubHour m_gap = [0, 1]" "Hour m_gap = [0, 1]" "Day m_gap = [1, 3]" "Year m_gap = [1, 2]"
  "Delta_sH m_gap = 1" "Delta_H m_gap = 1" "Delta_D m_gap = 1" "Delta_Y m_gap = 1"
  "Y_start m_gap = 1" "Fuel m_gap = [''El'']" "Eff m_gap ''Bat'' = 9 / 10"
  "input_fuels m_gap ''Bat'' = [''El'']" "F_subst m_gap ''El'' ''El''"
  "subst_rowsum m_gap ''El'' = 1" "storage_allowed m_gap ''n'' ''Bat'' Y"
  "Delta_T m_gap = 1 / 2"
  by (simp_all add: m_gap_def m_sto_def default_model_def input_fuels_def subst_rowsum_def
      storage_allowed_def Delta_T_def)

lemma m_eff0_facts:
  "SubHour m_eff0 = [0, 1]" "Hour m_eff0 = [0, 1]" "Day m_eff0 = [1, 2]"
  "Year m_eff0 = [1, 2]"
  "Delta_sH m_eff0 = 1" "Delta_H m_eff0 = 1" "Delta_D m_eff0 = 1" "Delta_Y m_eff0 = 1"
  "Y_start m_eff0 = 1" "Fuel m_eff0 = [''El'']" "Eff m_eff0 ''Bat'' = 0"
  "input_fuels m_eff0 ''Bat'' = [''El'']" "F_subst m_eff0 ''El'' ''El''"
  "subst_rowsum m_eff0 ''El'' = 1" "storage_allowed m_eff0 ''n'' ''Bat'' Y"
  "Delta_T m_eff0 = 1 / 2"
  by (simp_all add: m_eff0_def m_sto_def default_model_def input_fuels_def subst_rowsum_def
      storage_allowed_def Delta_T_def)

text \<open>
  Claim C2, as stated, fails on a sampled time step whose previous time stamp is not
  sampled. With the sampled days 1 and 3 and the default step \<open>Delta_D = 1\<close>, the first
  time step of day 3 has the previous day 2: the wrap is taken only below the first
  sampled day, and the level variable has no index with day 2, so the rule raises
  KeyError and the model has no balance constraint.
\<close>

theorem storage_balance_gap_counterexample:
  "1 \<in> set (Year m_gap) \<and> 3 \<in> set (Day m_gap) \<and> 0 \<in> set (Hour m_gap)
   \<and> 0 \<in> set (SubHour m_gap) \<and> Delta_D m_gap = 1
   \<and> storage_allowed m_gap ''n'' ''Bat'' 1 \<and> subst_rowsum m_gap ''El'' = 1
   \<and> input_fuels m_gap ''Bat'' = [''El''] \<and> F_subst m_gap ''El'' ''El''
   \<and> previous_time_stamp m_gap 1 3 0 0 = Inr (1, 2, 1, 1)
   \<and> storage_energy_balance_constraint_rule m_gap ''n'' ''Bat'' ''El'' 1 3 0 0 = Inl KeyError"
  by (simp add: storage_energy_balance_constraint_rule_def previous_time_stamp_def
      pre_level_def m_gap_facts)

text \<open>
  Claim C2, amended. For a sampled time step \<open>(Y, D, H, sH)\<close>, positive limits of year
  \<open>Y\<close>, a settlement fuel \<open>F1\<close> compatible with the first declared input fuel \<open>F\<close>: let
  \<open>(pY, pD, pH, psH)\<close> be the previous time stamp (SubHour decremented by its step,
  wrapping into Hour, Day and Year at the bounds of the sampled sets), and let
  \<open>preLevel\<close> be the start level when \<open>pY\<close> lies before the start year or before the
  first sampled year, the level at the previous time stamp otherwise. With efficiency 0
  the rule raises ZeroDivisionError. Otherwise, when \<open>preLevel\<close> is the start level or
  the previous time stamp is a sampled one, the rule returns the equality
  \<open>level = preLevel + f_cons * Eff * Delta_T - f_prod / Eff * Delta_T\<close>, which every
  satisfying assignment fulfils; and when the previous time stamp is needed and is not
  sampled, the rule raises KeyError.
\<close>

theorem storage_balance_recurrence:
  assumes "Y \<in> set (Year m)" "D \<in> set (Day m)" "H \<in> set (Hour m)" "sH \<in> set (SubHour m)"
    and "storage_allowed m N StoreT Y" "subst_rowsum m F1 = 1"
    and "input_fuels m StoreT = F # Fs" "F_subst m F F1"
    and "(pY, pD, pH, psH) =
     (if Min (set (SubHour m)) \<le> sH - int (Delta_sH m) then (Y, D, H, sH - int (Delta_sH m))
      else if Min (set (Hour m)) \<le> H - int (Delta_H m)
        then (Y, D, H - int (Delta_H m), Max (set (SubHour m)))
      else if Min (set (Day m)) \<le> D - int (Delta_D m)
        then (Y, D - int (Delta_D m), Max (set (Hour m)), Max (set (SubHour m)))
      else (Y - int (Delta_Y m), Max (set (Day m)), Max (set (Hour m)), Max (set (SubHour m))))"
    and "preLevel =
     (if pY < int (Y_start m) \<or> pY < Min (set (Year m))
      then start_storage_energy_level N StoreT F1
      else storage_energy_level N StoreT F1 pY pD pH psH)"
  shows "storage_energy_balance_constraint_rule m N StoreT F1 Y D H sH =
     (if Eff m StoreT = 0 then Inl ZeroDivisionError
      else if pY < int (Y_start m) \<or> pY < Min (set (Year m))
         \<or> (pY \<in> set (Year m) \<and> pD \<in> set (Day m) \<and> pH \<in> set (Hour m) \<and> psH \<in> set (SubHour m))
      then Inr (Con (Eq (Var (storage_energy_level N StoreT F1 Y D H sH))
        (Sub (Add (Var preLevel)
                  (Mul (Mul (Var (f_cons N StoreT F F1 Y D H sH)) (PyNum (Eff m StoreT)))
                       (PyNum (Delta_T m))))
             (Mul (Div (Var (f_prod N StoreT F1 Y D H sH)) (PyNum (Eff m StoreT)))
                  (PyNum (Delta_T m))))))
      else Inl KeyError)
    \<and> (\<forall>\<sigma> \<rho> c. storage_energy_balance_constraint_rule m N StoreT F1 Y D H sH = Inr (Con c)
          \<longrightarrow> sat \<sigma> \<rho> c \<longrightarrow>
          \<sigma> (storage_energy_level N StoreT F1 Y D H sH)
          = \<sigma> preLevel + \<sigma> (f_cons N StoreT F F1 Y D H sH) * Eff m StoreT * Delta_T m
            - \<sigma> (f_prod N StoreT F1 Y D H sH) / Eff m StoreT * Delta_T m)"
proof -
  from assms(1-4) have ne: "Year m \<noteq> []" "Day m \<noteq> []" "Hour m \<noteq> []" "SubHour m \<noteq> []"
    by auto
  have pts: "previous_time_stamp m Y D H sH = Inr (pY, pD, pH, psH)"
    using previous_time_stamp_eq [OF ne(4) ne(3) ne(2), of Y D H sH] assms(9) by (simp only:)
  have r: "storage_energy_balance_constraint_rule m N StoreT F1 Y D H sH =
     (if Eff m StoreT = 0 then Inl ZeroDivisionError
      else if pY < int (Y_start m) \<or> pY < Min (set (Year m))
         \<or> (pY \<in> set (Year m) \<and> pD \<in> set (Day m) \<and> pH \<in> set (Hour m) \<and> psH \<in> set (SubHour m))
      then Inr (Con (Eq (Var (storage_energy_level N StoreT F1 Y D H sH))
        (Sub (Add (Var preLevel)
                  (Mul (Mul (Var (f_cons N StoreT F F1 Y D H sH)) (PyNum (Eff m StoreT)))
                       (PyNum (Delta_T m))))
             (Mul (Div (Var (f_prod N StoreT F1 Y D H sH)) (PyNum (Eff m StoreT)))
                  (PyNum (Delta_T m))))))
      else Inl KeyError)"
    using assms(5-8) ne(1) pts assms(10)
    by (auto simp: storage_energy_balance_constraint_rule_def pre_level_def Let_def)
  show ?thesis
  proof (intro conjI allI impI)
    show "storage_energy_balance_constraint_rule m N StoreT F1 Y D H sH =
     (if Eff m StoreT = 0 then Inl ZeroDivisionError
      else if pY < int (Y_start m) \<or> pY < Min (set (Year m))
         \<or> (pY \<in> set (Year m) \<and> pD \<in> set (Day m) \<and> pH \<in> set (Hour m) \<and> psH \<in> set (SubHour m))
      then Inr (Con (Eq (Var (storage_energy_level N StoreT F1 Y D H sH))
        (Sub (Add (Var preLevel)
                  (Mul (Mul (Var (f_cons N StoreT F F1 Y D H sH)) (PyNum (Eff m StoreT)))
                       (PyNum (Delta_T m))))
             (Mul (Div (Var (f_prod N StoreT F1 Y D H sH)) (PyNum (Eff m StoreT)))
                  (PyNum (Delta_T m))))))
      else Inl KeyError)" by (rule r)
  next
    fix \<sigma> :: "var \<Rightarrow> real" and \<rho> :: "named \<Rightarrow> real" and c
    assume c: "storage_energy_balance_constraint_rule m N StoreT F1 Y D H sH = Inr (Con c)"
      and s: "sat \<sigma> \<rho> c"
    from c r have "c = Eq (Var (storage_energy_level N StoreT F1 Y D H sH))
        (Sub (Add (Var preLevel)
                  (Mul (Mul (Var (f_cons N StoreT F F1 Y D H sH)) (PyNum (Eff m StoreT)))
                       (PyNum (Delta_T m))))
             (Mul (Div (Var (f_prod N StoreT F1 Y D H sH)) (PyNum (Eff m StoreT)))
                  (PyNum (Delta_T m))))"
      by (simp split: if_splits)
    with s show "\<sigma> (storage_energy_level N StoreT F1 Y D H sH)
          = \<sigma> preLevel + \<sigma> (f_cons N StoreT F F1 Y D H sH) * Eff m StoreT * Delta_T m
            - \<sigma> (f_prod N StoreT F1 Y D H sH) / Eff m StoreT * Delta_T m"
      by simp
  qed
qed


text \<open>
  The first time step of year 1 takes the start level; the first time step of year 2
  takes the level of the last time step of year 1; the battery with efficiency 0 raises.
\<close>

theorem storage_balance_recurrence_witness:
  "1 \<in> set (Year m_sto) \<and> 2 \<in> set (Year m_sto) \<and> 1 \<in> set (Day m_sto)
   \<and> 0 \<in> set (Hour m_sto) \<and> 0 \<in> set (SubHour m_sto)
   \<and> storage_allowed m_sto ''n'' ''Bat'' 1 \<and> storage_allowed m_sto ''n'' ''Bat'' 2
   \<and> subst_rowsum m_sto ''El'' = 1
   \<and> input_fuels m_sto ''Bat'' = [''El''] \<and> F_subst m_sto ''El'' ''El''
   \<and> storage_energy_balance_constraint_rule m_sto ''n'' ''Bat'' ''El'' 1 1 0 0 =
       Inr (Con (Eq (Var (storage_energy_level ''n'' ''Bat'' ''El'' 1 1 0 0))
         (Sub (Add (Var (start_storage_energy_level ''n'' ''Bat'' ''El''))
                   (Mul (Mul (Var (f_cons ''n'' ''Bat'' ''El'' ''El'' 1 1 0 0)) (PyNum (9 / 10)))
                        (PyNum (1 / 2))))
              (Mul (Div (Var (f_prod ''n'' ''Bat'' ''El'' 1 1 0 0)) (PyNum (9 / 10)))
                   (PyNum (1 / 2))))))
   \<and> storage_energy_balance_constraint_rule m_sto ''n'' ''Bat'' ''El'' 2 1 0 0 =
       Inr (Con (Eq (Var (storage_energy_level ''n'' ''Bat'' ''El'' 2 1 0 0))
         (Sub (Add (Var (storage_energy_level ''n'' ''Bat'' ''El'' 1 2 1 1))
                   (Mul (Mul (Var (f_cons ''n'' ''Bat'' ''El'' ''El'' 2 1 0 0)) (PyNum (9 / 10)))
                        (PyNum (1 / 2))))
              (Mul (Div (Var (f_prod ''n'' ''Bat'' ''El'' 2 1 0 0)) (PyNum (9 / 10)))
                   (PyNum (1 / 2))))))
   \<and> 1 \<in> set (Year m_eff0) \<and> 1 \<in> set (Day m_eff0) \<and> 0 \<in> set (Hour m_eff0)
   \<and> 0 \<in> set (SubHour m_eff0) \<and> storage_allowed m_eff0 ''n'' ''Bat'' 1
   \<and> subst_rowsum m_eff0 ''El'' = 1
   \<and> input_fuels m_eff0 ''Bat'' = [''El''] \<and> F_subst m_eff0 ''El'' ''El''
   \<and> storage_energy_balance_constraint_rule m_eff0 ''n'' ''Bat'' ''El'' 1 1 0 0 =
       Inl ZeroDivisionError"
proof -
  have s: "(1::int) \<in> set (Year m_sto)" "(2::int) \<in> set (Year m_sto)"
    "(1::int) \<in> set (Day m_sto)" "(0::int) \<in> set (Hour m_sto)" "(0::int) \<in> set (SubHour m_sto)"
    by (simp_all add: m_sto_facts)
  have a: "storage_allowed m_sto ''n'' ''Bat'' 1" "storage_allowed m_sto ''n'' ''Bat'' 2"
    "subst_rowsum m_sto ''El'' = 1"
    "input_fuels m_sto ''Bat'' = ''El'' # []" "F_subst m_sto ''El'' ''El''"
    by (simp_all add: m_sto_facts)
  have p1: "(0, 2, 1, 1) =
     (if Min (set (SubHour m_sto)) \<le> 0 - int (Delta_sH m_sto)
      then (1, 1, 0, 0 - int (Delta_sH m_sto))
      else if Min (set (Hour m_sto)) \<le> 0 - int (Delta_H m_sto)
        then (1, 1, 0 - int (Delta_H m_sto), Max (set (SubHour m_sto)))
      else if Min (set (Day m_sto)) \<le> 1 - int (Delta_D m_sto)
        then (1, 1 - int (Delta_D m_sto), Max (set (Hour m_sto)), Max (set (SubHour m_sto)))
      else (1 - int (Delta_Y m_sto), Max (set (Day m_sto)), Max (set (Hour m_sto)),
            Max (set (SubHour m_sto))))"
    by (simp add: m_sto_facts)
  have p2: "(1, 2, 1, 1) =
     (if Min (set (SubHour m_sto)) \<le> 0 - int (Delta_sH m_sto)
      then (2, 1, 0, 0 - int (Delta_sH m_sto))
      else if Min (set (Hour m_sto)) \<le> 0 - int (Delta_H m_sto)
        then (2, 1, 0 - int (Delta_H m_sto), Max (set (SubHour m_sto)))
      else if Min (set (Day m_sto)) \<le> 1 - int (Delta_D m_sto)
        then (2, 1 - int (Delta_D m_sto), Max (set (Hour m_sto)), Max (set (SubHour m_sto)))
      else (2 - int (Delta_Y m_sto), Max (set (Day m_sto)), Max (set (Hour m_sto)),
            Max (set (SubHour m_sto))))"
    by (simp add: m_sto_facts)
  have l1: "start_storage_energy_level ''n'' ''Bat'' ''El'' =
     (if 0 < int (Y_start m_sto) \<or> 0 < Min (set (Year m_sto))
      then start_storage_energy_level ''n'' ''Bat'' ''El''
      else storage_energy_level ''n'' ''Bat'' ''El'' 0 2 1 1)"
    by (simp add: m_sto_facts)
  have l2: "storage_energy_level ''n'' ''Bat'' ''El'' 1 2 1 1 =
     (if 1 < int (Y_start m_sto) \<or> 1 < Min (set (Year m_sto))
      then start_storage_energy_level ''n'' ''Bat'' ''El''
      else storage_energy_level ''n'' ''Bat'' ''El'' 1 2 1 1)"
    by (simp add: m_sto_facts)
  note r1 = storage_balance_recurrence [OF s(1) s(3) s(4) s(5) a(1) a(3) a(4) a(5) p1 l1,
      THEN conjunct1]
  note r2 = storage_balance_recurrence [OF s(2) s(3) s(4) s(5) a(2) a(3) a(4) a(5) p2 l2,
      THEN conjunct1]
  have s0: "(1::int) \<in> set (Year m_eff0)" "(1::int) \<in> set (Day m_eff0)"
    "(0::int) \<in> set (Hour m_eff0)" "(0::int) \<in> set (SubHour m_eff0)"
    by (simp_all add: m_eff0_facts)
  have a0: "storage_allowed m_eff0 ''n'' ''Bat'' 1" "subst_rowsum m_eff0 ''El'' = 1"
    "input_fuels m_eff0 ''Bat'' = ''El'' # []" "F_subst m_eff0 ''El'' ''El''"
    by (simp_all add: m_eff0_facts)
  have p0: "(0, 2, 1, 1) =
     (if Min (set (SubHour m_eff0)) \<le> 0 - int (Delta_sH m_eff0)
      then (1, 1, 0, 0 - int (Delta_sH m_eff0))
      else if Min (set (Hour m_eff0)) \<le> 0 - int (Delta_H m_eff0)
        then (1, 1, 0 - int (Delta_H m_eff0), Max (set (SubHour m_eff0)))
      else if Min (set (Day m_eff0)) \<le> 1 - int (Delta_D m_eff0)
        then (1, 1 - int (Delta_D m_eff0), Max (set (Hour m_eff0)), Max (set (SubHour m_eff0)))
      else (1 - int (Delta_Y m_eff0), Max (set (Day m_eff0)), Max (set (Hour m_eff0)),
            Max (set (SubHour m_eff0))))"
    by (simp add: m_eff0_facts)
  have l0: "start_storage_energy_level ''n'' ''Bat'' ''El'' =
     (if 0 < int (Y_start m_eff0) \<or> 0 < Min (set (Year m_eff0))
      then start_storage_energy_level ''n'' ''Bat'' ''El''
      else storage_energy_level ''n'' ''Bat'' ''El'' 0 2 1 1)"
    by (simp add: m_eff0_facts)
  note r0 = storage_balance_recurrence [OF s0 a0 p0 l0, THEN conjunct1]
  from r1 r2 r0 s a s0 a0 show ?thesis
    by (simp add: m_sto_facts m_eff0_facts)
qed

subsection \<open>Resolution of the input fuel of a storage technology (C9)\<close>

lemma previous_time_stamp_E_input:
  "previous_time_stamp (m\<lparr>E_input := e\<rparr>) Y D H sH = previous_time_stamp m Y D H sH"
  by (simp add: previous_time_stamp_def cong: if_cong)

lemma pre_level_E_input:
  "pre_level (m\<lparr>E_input := e\<rparr>) N StoreT F1 t = pre_level m N StoreT F1 t"
  by (simp add: pre_level_def cong: if_cong split: prod.splits)

lemma m_two_facts:
  "SubHour m_two = [0, 1]" "Hour m_two = [0, 1]" "Day m_two = [1, 2]" "Year m_two = [1, 2]"
  "Delta_sH m_two = 1" "Delta_H m_two = 1" "Delta_D m_two = 1" "Delta_Y m_two = 1"
  "Y_start m_two = 1" "Fuel m_two = [''El'', ''H2'']" "Eff m_two ''Bat'' = 9 / 10"
  "Start_storage_level m_two ''n'' ''Bat'' = 1 / 2"
  "input_fuels m_two ''Bat'' = [''El'', ''H2'']" "F_subst m_two F G = (F = G)"
  "subst_rowsum m_two ''El'' = 1" "storage_allowed m_two ''n'' ''Bat'' Y"
  "Delta_T m_two = 1 / 2"
  by (simp_all add: m_two_def m_sto_def default_model_def input_fuels_def subst_rowsum_def
      storage_allowed_def Delta_T_def)

lemma m_none_facts:
  "Year m_none = [1, 2]" "input_fuels m_none ''Bat'' = []"
  "subst_rowsum m_none ''El'' = 1" "storage_allowed m_none ''n'' ''Bat'' Y"
  by (simp_all add: m_none_def m_sto_def default_model_def input_fuels_def subst_rowsum_def
      storage_allowed_def)

text \<open>
  Claim C9, as stated, fails on a storage technology with two declared input fuels:
  \<^verbatim>\<open>[F for F in m.Fuel if m.E_input[StoreT,F]][0]\<close> takes the first of them, and
  both rules return a constraint written with that fuel. No error is raised.
\<close>

theorem two_input_fuels_counterexample:
  "input_fuels m_two ''Bat'' = [''El'', ''H2'']
   \<and> storage_energy_balance_constraint_rule m_two ''n'' ''Bat'' ''El'' 1 1 0 0 =
       Inr (Con (Eq (Var (storage_energy_level ''n'' ''Bat'' ''El'' 1 1 0 0))
         (Sub (Add (Var (start_storage_energy_level ''n'' ''Bat'' ''El''))
                   (Mul (Mul (Var (f_cons ''n'' ''Bat'' ''El'' ''El'' 1 1 0 0)) (PyNum (9 / 10)))
                        (PyNum (1 / 2))))
              (Mul (Div (Var (f_prod ''n'' ''Bat'' ''El'' 1 1 0 0)) (PyNum (9 / 10)))
                   (PyNum (1 / 2))))))
   \<and> start_storage_energy_level_constraint_rule m_two ''n'' ''Bat'' =
       Inr (Con (Eq (Add (PyNum 0) (Var (start_storage_energy_level ''n'' ''Bat'' ''El'')))
                    (Mul (PyNum (1 / 2)) (Named (inst_storage_vol ''n'' ''Bat'' 1)))))"
  by (simp add: storage_energy_balance_constraint_rule_def
      start_storage_energy_level_constraint_rule_def previous_time_stamp_def pre_level_def
      m_two_facts py_sum_def)

text \<open>
  Claim C9, amended. With no declared input fuel, the storage energy balance rule and
  the start level rule raise IndexError at every index where their guard holds (limits
  positive, and for the balance a fuel of row sum 1). Where the guard does not hold both
  rules skip the constraint, whatever the declared input fuels. With at least one
  declared input fuel neither rule raises IndexError, and each returns what it returns
  for the technology whose only input fuel is the first declared fuel \<open>F\<close>: the further
  fuels are ignored and the technology is not rejected.
\<close>

theorem input_fuel_resolution:
  "(input_fuels m StoreT = [] \<and> storage_allowed m N StoreT Y \<and> subst_rowsum m F1 = 1 \<longrightarrow>
      storage_energy_balance_constraint_rule m N StoreT F1 Y D H sH = Inl IndexError)
   \<and> (input_fuels m StoreT = [] \<and> Year m \<noteq> []
        \<and> storage_allowed m N StoreT (Max (set (Year m))) \<longrightarrow>
      start_storage_energy_level_constraint_rule m N StoreT = Inl IndexError)
   \<and> (\<not> (storage_allowed m N StoreT Y \<and> subst_rowsum m F1 = 1) \<longrightarrow>
      storage_energy_balance_constraint_rule m N StoreT F1 Y D H sH = Inr Skip)
   \<and> (Year m \<noteq> [] \<and> \<not> storage_allowed m N StoreT (Max (set (Year m))) \<longrightarrow>
      start_storage_energy_level_constraint_rule m N StoreT = Inr Skip)
   \<and> (input_fuels m StoreT = F # Fs \<longrightarrow>
      storage_energy_balance_constraint_rule m N StoreT F1 Y D H sH \<noteq> Inl IndexError
      \<and> start_storage_energy_level_constraint_rule m N StoreT \<noteq> Inl IndexError
      \<and> storage_energy_balance_constraint_rule m N StoreT F1 Y D H sH
        = storage_energy_balance_constraint_rule
            (m\<lparr>E_input := (E_input m)(StoreT := (\<lambda>G. G = F))\<rparr>) N StoreT F1 Y D H sH
      \<and> start_storage_energy_level_constraint_rule m N StoreT
        = start_storage_energy_level_constraint_rule
            (m\<lparr>E_input := (E_input m)(StoreT := (\<lambda>G. G = F))\<rparr>) N StoreT
      \<and> input_fuels (m\<lparr>E_input := (E_input m)(StoreT := (\<lambda>G. G = F))\<rparr>) StoreT
        = filter (\<lambda>G. G = F) (Fuel m))"
proof (intro conjI impI)
  assume "input_fuels m StoreT = [] \<and> storage_allowed m N StoreT Y \<and> subst_rowsum m F1 = 1"
  then show "storage_energy_balance_constraint_rule m N StoreT F1 Y D H sH = Inl IndexError"
    by (simp add: storage_energy_balance_constraint_rule_def)
next
  assume "input_fuels m StoreT = [] \<and> Year m \<noteq> []
        \<and> storage_allowed m N StoreT (Max (set (Year m)))"
  then show "start_storage_energy_level_constraint_rule m N StoreT = Inl IndexError"
    by (simp add: start_storage_energy_level_constraint_rule_def)
next
  assume "\<not> (storage_allowed m N StoreT Y \<and> subst_rowsum m F1 = 1)"
  then show "storage_energy_balance_constraint_rule m N StoreT F1 Y D H sH = Inr Skip"
    by (auto simp: storage_energy_balance_constraint_rule_def)
next
  assume "Year m \<noteq> [] \<and> \<not> storage_allowed m N StoreT (Max (set (Year m)))"
  then show "start_storage_energy_level_constraint_rule m N StoreT = Inr Skip"
    by (simp add: start_storage_energy_level_constraint_rule_def)
next
  assume f: "input_fuels m StoreT = F # Fs"
  show "storage_energy_balance_constraint_rule m N StoreT F1 Y D H sH \<noteq> Inl IndexError"
    using f
    by (auto simp: storage_energy_balance_constraint_rule_def previous_time_stamp_def
        pre_level_def py_min_def py_max_def bind_err_def Let_def split: sum.splits prod.splits)
next
  assume f: "input_fuels m StoreT = F # Fs"
  show "start_storage_energy_level_constraint_rule m N StoreT \<noteq> Inl IndexError"
    using f
    by (auto simp: start_storage_energy_level_constraint_rule_def py_min_def py_max_def
        bind_err_def split: sum.splits)
next
  assume f: "input_fuels m StoreT = F # Fs"
  then have "F \<in> set (filter (E_input m StoreT) (Fuel m))"
    by (simp add: input_fuels_def)
  then have "F \<in> set (Fuel m)" by simp
  then obtain Gs where g: "filter (\<lambda>G. G = F) (Fuel m) = F # Gs"
    by (cases "filter (\<lambda>G. G = F) (Fuel m)") (auto simp: filter_empty_conv dest: filter_eq_ConsD)
  have i: "input_fuels (m\<lparr>E_input := (E_input m)(StoreT := (\<lambda>G. G = F))\<rparr>) StoreT = F # Gs"
    using g by (simp add: input_fuels_def)
  show "storage_energy_balance_constraint_rule m N StoreT F1 Y D H sH
        = storage_energy_balance_constraint_rule
            (m\<lparr>E_input := (E_input m)(StoreT := (\<lambda>G. G = F))\<rparr>) N StoreT F1 Y D H sH"
    unfolding storage_energy_balance_constraint_rule_def f i
    by (simp add: storage_allowed_def subst_rowsum_def previous_time_stamp_E_input
        pre_level_E_input Delta_T_def)
  show "start_storage_energy_level_constraint_rule m N StoreT
        = start_storage_energy_level_constraint_rule
            (m\<lparr>E_input := (E_input m)(StoreT := (\<lambda>G. G = F))\<rparr>) N StoreT"
    unfolding start_storage_energy_level_constraint_rule_def f i
    by (simp add: storage_allowed_def subst_rowsum_def cong: if_cong)
  show "input_fuels (m\<lparr>E_input := (E_input m)(StoreT := (\<lambda>G. G = F))\<rparr>) StoreT
        = filter (\<lambda>G. G = F) (Fuel m)"
    by (simp add: input_fuels_def)
qed

text \<open>
  The battery without input fuel raises in both rules; phased out in year 2 it is
  skipped in year 2; the battery with the input fuels El and H2 behaves as the battery
  with the input fuel El.
\<close>

theorem input_fuel_resolution_witness:
  "input_fuels m_none ''Bat'' = [] \<and> storage_allowed m_none ''n'' ''Bat'' 1
   \<and> subst_rowsum m_none ''El'' = 1 \<and> Year m_none \<noteq> []
   \<and> storage_allowed m_none ''n'' ''Bat'' (Max (set (Year m_none)))
   \<and> storage_energy_balance_constraint_rule m_none ''n'' ''Bat'' ''El'' 1 1 0 0 = Inl IndexError
   \<and> start_storage_energy_level_constraint_rule m_none ''n'' ''Bat'' = Inl IndexError
   \<and> Year m_phase \<noteq> [] \<and> \<not> storage_allowed m_phase ''n'' ''Bat'' 2
   \<and> \<not> storage_allowed m_phase ''n'' ''Bat'' (Max (set (Year m_phase)))
   \<and> storage_energy_balance_constraint_rule m_phase ''n'' ''Bat'' ''El'' 2 1 0 0 = Inr Skip
   \<and> start_storage_energy_level_constraint_rule m_phase ''n'' ''Bat'' = Inr Skip
   \<and> input_fuels m_two ''Bat'' = ''El'' # [''H2'']
   \<and> storage_energy_balance_constraint_rule m_two ''n'' ''Bat'' ''El'' 1 1 0 0 \<noteq> Inl IndexError
   \<and> start_storage_energy_level_constraint_rule m_two ''n'' ''Bat'' \<noteq> Inl IndexError
   \<and> storage_energy_balance_constraint_rule m_two ''n'' ''Bat'' ''El'' 1 1 0 0
       = storage_energy_balance_constraint_rule
           (m_two\<lparr>E_input := (E_input m_two)(''Bat'' := (\<lambda>G. G = ''El''))\<rparr>)
           ''n'' ''Bat'' ''El'' 1 1 0 0
   \<and> start_storage_energy_level_constraint_rule m_two ''n'' ''Bat''
       = start_storage_energy_level_constraint_rule
           (m_two\<lparr>E_input := (E_input m_two)(''Bat'' := (\<lambda>G. G = ''El''))\<rparr>) ''n'' ''Bat''
   \<and> input_fuels (m_two\<lparr>E_input := (E_input m_two)(''Bat'' := (\<lambda>G. G = ''El''))\<rparr>) ''Bat''
       = [''El'']"
proof -
  note a = input_fuel_resolution [where m = m_none and StoreT = "''Bat''" and N = "''n''"
      and Y = 1 and ?F1.0 = "''El''" and D = 1 and H = 0 and sH = 0]
  note b = input_fuel_resolution [where m = m_phase and StoreT = "''Bat''" and N = "''n''"
      and Y = 2 and ?F1.0 = "''El''" and D = 1 and H = 0 and sH = 0]
  note c = input_fuel_resolution [where m = m_two and StoreT = "''Bat''" and N = "''n''"
      and Y = 1 and ?F1.0 = "''El''" and D = 1 and H = 0 and sH = 0 and F = "''El''"
      and Fs = "[''H2'']"]
  have 1: "storage_energy_balance_constraint_rule m_none ''n'' ''Bat'' ''El'' 1 1 0 0
      = Inl IndexError"
    "start_storage_energy_level_constraint_rule m_none ''n'' ''Bat'' = Inl IndexError"
    using a by (simp_all add: m_none_facts)
  have 2: "storage_energy_balance_constraint_rule m_phase ''n'' ''Bat'' ''El'' 2 1 0 0
      = Inr Skip"
    "start_storage_energy_level_constraint_rule m_phase ''n'' ''Bat'' = Inr Skip"
    using b by (simp_all add: m_phase_facts)
  have 3: "storage_energy_balance_constraint_rule m_two ''n'' ''Bat'' ''El'' 1 1 0 0
        \<noteq> Inl IndexError
      \<and> start_storage_energy_level_constraint_rule m_two ''n'' ''Bat'' \<noteq> Inl IndexError
      \<and> storage_energy_balance_constraint_rule m_two ''n'' ''Bat'' ''El'' 1 1 0 0
          = storage_energy_balance_constraint_rule
              (m_two\<lparr>E_input := (E_input m_two)(''Bat'' := (\<lambda>G. G = ''El''))\<rparr>)
              ''n'' ''Bat'' ''El'' 1 1 0 0
      \<and> start_storage_energy_level_constraint_rule m_two ''n'' ''Bat''
          = start_storage_energy_level_constraint_rule
              (m_two\<lparr>E_input := (E_input m_two)(''Bat'' := (\<lambda>G. G = ''El''))\<rparr>) ''n'' ''Bat''
      \<and> input_fuels (m_two\<lparr>E_input := (E_input m_two)(''Bat'' := (\<lambda>G. G = ''El''))\<rparr>) ''Bat''
          = filter (\<lambda>G. G = ''El'') (Fuel m_two)"
    using c m_two_facts(13) by blast
  have 4: "filter (\<lambda>G. G = ''El'') (Fuel m_two) = [''El'']"
    by (simp add: m_two_facts)
  show ?thesis
    using 1 2 3 unfolding 4
    by (simp add: m_none_facts m_phase_facts m_two_facts(13) del: fun_upd_apply) auto
qed

subsection \<open>Full-load hours (C10)\<close>

lemma m_flh_facts:
  "Fuel m_flh = [''El'', ''H2'']" "Day m_flh = [1]" "Hour m_flh = [0, 1]" "SubHour m_flh = [0]"
  "Delta_T m_flh = 1" "Scale_H m_flh = 12" "Scale_D m_flh = 365"
  "Cap_of_input m_flh T = (T = ''Ely'')" "F_subst m_flh F G = (F = G)"
  "output_fuels m_flh ''Gen'' = [''El'']" "input_fuels m_flh ''Ely'' = [''El'']"
  "input_fuels m_flh ''Sink'' = [''El'']" "output_fuels m_flh ''Sink'' = []"
  "''Sink'' \<in> set (non_storage_tech m_flh)"
  by (simp_all add: m_flh_def default_model_def input_fuels_def output_fuels_def
      Delta_T_def Scale_H_def Scale_D_def non_storage_tech_def)

text \<open>
  Claim C10, as stated, fails on a non-storage technology with installed capacity that
  declares no fuel of the kind the load is read from. The consumer of electricity has an
  input fuel and no output fuel, and its capacity does not refer to its input (the
  default): \<^verbatim>\<open>[F1 for F1 in model.Fuel if model.E_output[T, F1]][0]\<close> raises IndexError,
  so no full-load hours are returned.
\<close>

theorem flh_consumer_only_counterexample:
  "''Sink'' \<in> set (non_storage_tech m_flh)
   \<and> rho_flh (inst_cap ''n'' ''Sink'' 1) = 4
   \<and> \<not> Cap_of_input m_flh ''Sink''
   \<and> input_fuels m_flh ''Sink'' = [''El''] \<and> output_fuels m_flh ''Sink'' = []
   \<and> flh_rule m_flh sigma_flh rho_flh ''n'' ''Sink'' 1 = Inl IndexError"
  by (simp add: flh_rule_def m_flh_facts rho_flh_def)

text \<open>
  Claim C10, amended. \<^verbatim>\<open>flh_rule\<close> returns 0 when the installed capacity is zero. Otherwise,
  for a technology that declares a fuel of the kind its load is read from (an input fuel
  when its capacity refers to its input, an output fuel otherwise), it returns the
  scaled annual load of the first such fuel divided by the installed capacity; for a
  technology that declares no such fuel it raises IndexError. The division is never
  evaluated with a zero divisor.
\<close>

theorem flh_rule_characterisation:
  "(\<rho> (inst_cap N T Y) = 0 \<longrightarrow> flh_rule m \<sigma> \<rho> N T Y = Inr 0)
   \<and> (\<rho> (inst_cap N T Y) \<noteq> 0 \<and> Cap_of_input m T \<and> input_fuels m T = F # Fs \<longrightarrow>
        flh_rule m \<sigma> \<rho> N T Y =
          Inr (sum_list [\<sigma> (f_cons N T F F1 Y D H sH).
                  F1 \<leftarrow> Fuel m, F_subst m F F1, D \<leftarrow> Day m, H \<leftarrow> Hour m, sH \<leftarrow> SubHour m]
               * Delta_T m * Scale_H m * Scale_D m / \<rho> (inst_cap N T Y)))
   \<and> (\<rho> (inst_cap N T Y) \<noteq> 0 \<and> \<not> Cap_of_input m T \<and> output_fuels m T = F # Fs \<longrightarrow>
        flh_rule m \<sigma> \<rho> N T Y =
          Inr (sum_list [\<sigma> (f_prod N T F Y D H sH). D \<leftarrow> Day m, H \<leftarrow> Hour m, sH \<leftarrow> SubHour m]
               * Delta_T m * Scale_H m * Scale_D m / \<rho> (inst_cap N T Y)))
   \<and> (\<rho> (inst_cap N T Y) \<noteq> 0
        \<and> (if Cap_of_input m T then input_fuels m T else output_fuels m T) = [] \<longrightarrow>
        flh_rule m \<sigma> \<rho> N T Y = Inl IndexError)
   \<and> flh_rule m \<sigma> \<rho> N T Y \<noteq> Inl ZeroDivisionError"
  by (auto simp: flh_rule_def Let_def py_div_def first_elem_def bind_err_def
      split: list.splits)

text \<open>
  Two hours of one day, 365 days and 24 hours to scale to: the generator produces 3 per
  hour on 4 installed, the electrolyser consumes 2 per hour on 4 installed.
\<close>

theorem flh_rule_characterisation_witness:
  "rho_flh (inst_cap ''n'' ''Idle'' 1) = 0
   \<and> flh_rule m_flh sigma_flh rho_flh ''n'' ''Idle'' 1 = Inr 0
   \<and> rho_flh (inst_cap ''n'' ''Gen'' 1) \<noteq> 0 \<and> \<not> Cap_of_input m_flh ''Gen''
   \<and> output_fuels m_flh ''Gen'' = [''El'']
   \<and> flh_rule m_flh sigma_flh rho_flh ''n'' ''Gen'' 1 = Inr 6570
   \<and> rho_flh (inst_cap ''n'' ''Ely'' 1) \<noteq> 0 \<and> Cap_of_input m_flh ''Ely''
   \<and> input_fuels m_flh ''Ely'' = [''El'']
   \<and> flh_rule m_flh sigma_flh rho_flh ''n'' ''Ely'' 1 = Inr 4380
   \<and> rho_flh (inst_cap ''n'' ''Sink'' 1) \<noteq> 0 \<and> output_fuels m_flh ''Sink'' = []
   \<and> flh_rule m_flh sigma_flh rho_flh ''n'' ''Sink'' 1 \<noteq> Inl ZeroDivisionError"
  using flh_rule_characterisation [where m = m_flh and \<sigma> = sigma_flh and \<rho> = rho_flh
      and N = "''n''" and T = "''Idle''" and Y = 1]
    flh_rule_characterisation [where m = m_flh and \<sigma> = sigma_flh and \<rho> = rho_flh
      and N = "''n''" and T = "''Gen''" and Y = 1 and F = "''El''" and Fs = "[]"]
    flh_rule_characterisation [where m = m_flh and \<sigma> = sigma_flh and \<rho> = rho_flh
      and N = "''n''" and T = "''Ely''" and Y = 1 and F = "''El''" and Fs = "[]"]
    flh_rule_characterisation [where m = m_flh and \<sigma> = sigma_flh and \<rho> = rho_flh
      and N = "''n''" and T = "''Sink''" and Y = 1]
  by (simp add: m_flh_facts sigma_flh_def rho_flh_def)

subsection \<open>Fuel balance (C4)\<close>

lemma is_num_py_add [simp]: "is_num (py_add a b) = (is_num a \<and> is_num b)"
  by (cases "(a, b)" rule: py_add.cases) simp_all

lemma is_num_foldl_py_add:
  "is_num (foldl py_add a xs) = (is_num a \<and> (\<forall>x\<in>set xs. is_num x))"
  by (induction xs arbitrary: a) auto

lemma is_num_py_sum: "is_num (py_sum xs) = (\<forall>x\<in>set xs. is_num x)"
  by (simp add: py_sum_def is_num_foldl_py_add)

lemma py_add_zero: "py_add (PyNum 0) (PyNum 0) = PyNum 0"
  by simp

lemma foldl_py_add_zero:
  "a = PyNum 0 \<Longrightarrow> \<forall>x\<in>set xs. x = PyNum 0 \<Longrightarrow> foldl py_add a xs = PyNum 0"
  by (induction xs arbitrary: a) simp_all

lemma numeric_sum_is_zero:
  assumes "is_num (foldl py_add a xs)"
    and "zero_or_symbolic a"
    and "\<forall>x\<in>set xs. zero_or_symbolic x"
  shows "foldl py_add a xs = PyNum 0"
proof -
  from assms(1) have n: "is_num a" "\<forall>x\<in>set xs. is_num x"
    by (simp_all add: is_num_foldl_py_add)
  with assms(2,3) have "a = PyNum 0" "\<forall>x\<in>set xs. x = PyNum 0"
    by (auto simp: zero_or_symbolic_def)
  then show ?thesis by (rule foldl_py_add_zero)
qed

lemma zero_or_symbolic_simps [simp]:
  "zero_or_symbolic (PyNum 0)" "zero_or_symbolic (Var v)" "zero_or_symbolic (Div a b)"
  by (simp_all add: zero_or_symbolic_def)

lemma zero_or_symbolic_py_sum:
  assumes "\<forall>x\<in>set xs. \<not> is_num x"
  shows "zero_or_symbolic (py_sum xs)"
proof (cases xs)
  case Nil
  then show ?thesis by (simp add: py_sum_def)
next
  case (Cons x ys)
  with assms show ?thesis by (simp add: is_num_py_sum zero_or_symbolic_def)
qed

text \<open>
  When no variable remains on a side of the balance, that side is the number 0: every
  term is a sum of variables or the literal 0.
\<close>

lemma balance_lhs_numeric:
  "is_num (balance_lhs m N F1 Y D H sH) \<Longrightarrow> balance_lhs m N F1 Y D H sH = PyNum 0"
  unfolding balance_lhs_def Let_def
  by (rule numeric_sum_is_zero) (auto intro!: zero_or_symbolic_py_sum)

lemma balance_rhs_numeric:
  "is_num (balance_rhs m N F1 Y D H sH cons_idx) \<Longrightarrow>
     balance_rhs m N F1 Y D H sH cons_idx = PyNum 0"
  unfolding balance_rhs_def Let_def
  by (rule numeric_sum_is_zero) (auto intro!: zero_or_symbolic_py_sum)

lemma py_eq_cases:
  "py_eq a b = (if is_num a \<and> is_num b then PyBool (a = b) else PyRel (Eq a b))"
  by (cases "(a, b)" rule: py_eq.cases) simp_all

text \<open>
  The consumption filter raises only through \<^verbatim>\<open>m.F_subst['Electricity',F1]\<close>, that
  is only in a model without a fuel named Electricity.
\<close>

lemma filter_err_total:
  assumes "\<forall>x\<in>set xs. \<exists>b. p x = Inr b"
  shows "\<exists>ys. filter_err p xs = Inr ys"
  using assms
proof (induction xs)
  case Nil
  then show ?case by simp
next
  case (Cons x xs)
  then obtain b ys where "p x = Inr b" "filter_err p xs = Inr ys" by auto
  then show ?case by simp
qed

lemma cons_filter_succeeds:
  assumes "''Electricity'' \<in> set (Fuel m)" "F1 \<in> set (Fuel m)"
  shows "\<exists>cons_idx. filter_err (cons_cond m N F1 Y D H sH) xs = Inr cons_idx"
  by (rule filter_err_total) (auto simp: cons_cond_def subst_lookup_def assms split: prod.splits)

text \<open>
  Claim C4, as stated, fails on a settlement fuel that belongs to \<^verbatim>\<open>VreFuel\<close>: the
  guard \<^verbatim>\<open>not F1 in m.VreFuel\<close> skips the constraint although the production of the
  generator remains on the left-hand side.
\<close>

theorem fuel_balance_vre_counterexample:
  "subst_rowsum m_vre ''Electricity'' = 1
   \<and> \<not> is_num (balance_lhs m_vre ''n'' ''Electricity'' 1 1 0 0)
   \<and> fuel_balance_constraint_rule m_vre ''n'' ''Electricity'' 1 1 0 0 = Inr Skip"
  by (simp add: m_vre_def m_bal_def default_model_def subst_rowsum_def
      fuel_balance_constraint_rule_def balance_lhs_def non_storage_tech_def
      is_num_foldl_py_add is_num_py_sum)

text \<open>
  Claim C4, amended. For a settlement fuel (row sum 1) outside \<^verbatim>\<open>VreFuel\<close>: when the
  consumption filter evaluates to the index list \<open>cons_idx\<close>, the rule returns the
  equality of the two sides if a variable term remains on either side, and if none
  remains both sides are the number 0 and the rule skips the constraint; when the
  consumption filter raises, the rule raises the same error, which does not happen in a
  model that has a fuel named Electricity. For a fuel in \<^verbatim>\<open>VreFuel\<close> or of another row
  sum the rule skips the constraint without evaluating a term. The rule never returns
  \<^verbatim>\<open>None\<close>: two sides without variables are never unequal numbers.
\<close>

theorem fuel_balance_three_way:
  "(subst_rowsum m F1 = 1 \<and> F1 \<notin> set (VreFuel m)
      \<and> filter_err (cons_cond m N F1 Y D H sH)
           [(T, F). T \<leftarrow> non_storage_tech m, pyfloat_gt (Max_inst_cap m N T Y) 0, F \<leftarrow> Fuel m]
         = Inr cons_idx
      \<and> \<not> (is_num (balance_lhs m N F1 Y D H sH)
            \<and> is_num (balance_rhs m N F1 Y D H sH cons_idx)) \<longrightarrow>
    fuel_balance_constraint_rule m N F1 Y D H sH =
      Inr (Con (Eq (balance_lhs m N F1 Y D H sH) (balance_rhs m N F1 Y D H sH cons_idx))))
   \<and> (subst_rowsum m F1 = 1 \<and> F1 \<notin> set (VreFuel m)
      \<and> filter_err (cons_cond m N F1 Y D H sH)
           [(T, F). T \<leftarrow> non_storage_tech m, pyfloat_gt (Max_inst_cap m N T Y) 0, F \<leftarrow> Fuel m]
         = Inr cons_idx
      \<and> is_num (balance_lhs m N F1 Y D H sH)
      \<and> is_num (balance_rhs m N F1 Y D H sH cons_idx) \<longrightarrow>
    balance_lhs m N F1 Y D H sH = PyNum 0
    \<and> balance_rhs m N F1 Y D H sH cons_idx = PyNum 0
    \<and> fuel_balance_constraint_rule m N F1 Y D H sH = Inr Skip)
   \<and> (subst_rowsum m F1 = 1 \<and> F1 \<notin> set (VreFuel m)
      \<and> filter_err (cons_cond m N F1 Y D H sH)
           [(T, F). T \<leftarrow> non_storage_tech m, pyfloat_gt (Max_inst_cap m N T Y) 0, F \<leftarrow> Fuel m]
         = Inl e \<longrightarrow>
    fuel_balance_constraint_rule m N F1 Y D H sH = Inl e)
   \<and> (''Electricity'' \<in> set (Fuel m) \<and> F1 \<in> set (Fuel m) \<longrightarrow>
    (\<exists>idx. filter_err (cons_cond m N F1 Y D H sH)
           [(T, F). T \<leftarrow> non_storage_tech m, pyfloat_gt (Max_inst_cap m N T Y) 0, F \<leftarrow> Fuel m]
         = Inr idx))
   \<and> (\<not> (subst_rowsum m F1 = 1 \<and> F1 \<notin> set (VreFuel m)) \<longrightarrow>
    fuel_balance_constraint_rule m N F1 Y D H sH = Inr Skip)
   \<and> fuel_balance_constraint_rule m N F1 Y D H sH \<noteq> Inr RNone"
proof -
  let ?idx = "[(T, F). T \<leftarrow> non_storage_tech m, pyfloat_gt (Max_inst_cap m N T Y) 0, F \<leftarrow> Fuel m]"
  let ?g = "subst_rowsum m F1 = 1 \<and> F1 \<notin> set (VreFuel m)"
  let ?l = "balance_lhs m N F1 Y D H sH"
  have val: "fuel_balance_constraint_rule m N F1 Y D H sH =
      (if is_num ?l \<and> is_num (balance_rhs m N F1 Y D H sH ci) then Inr Skip
       else Inr (Con (Eq ?l (balance_rhs m N F1 Y D H sH ci))))"
    and zero: "is_num ?l \<and> is_num (balance_rhs m N F1 Y D H sH ci) \<Longrightarrow>
       ?l = PyNum 0 \<and> balance_rhs m N F1 Y D H sH ci = PyNum 0"
    if "?g" "filter_err (cons_cond m N F1 Y D H sH) ?idx = Inr ci" for ci
  proof -
    let ?r = "balance_rhs m N F1 Y D H sH ci"
    show z: "?l = PyNum 0 \<and> ?r = PyNum 0" if "is_num ?l \<and> is_num ?r"
      using that balance_lhs_numeric balance_rhs_numeric by blast
    have "fuel_balance_constraint_rule m N F1 Y D H sH =
        (case py_eq ?l ?r of PyRel balance \<Rightarrow> Inr (Con balance)
         | PyBool True \<Rightarrow> Inr Skip | PyBool False \<Rightarrow> Inr RNone)"
      using \<open>?g\<close> that(2) by (simp add: fuel_balance_constraint_rule_def)
    then show "fuel_balance_constraint_rule m N F1 Y D H sH =
      (if is_num ?l \<and> is_num ?r then Inr Skip else Inr (Con (Eq ?l ?r)))"
      using z by (auto simp: py_eq_cases)
  qed
  have err: "fuel_balance_constraint_rule m N F1 Y D H sH = Inl e'"
    if "?g" "filter_err (cons_cond m N F1 Y D H sH) ?idx = Inl e'" for e'
    using that by (simp add: fuel_balance_constraint_rule_def)
  have skip: "fuel_balance_constraint_rule m N F1 Y D H sH = Inr Skip" if "\<not> ?g"
    using that by (auto simp: fuel_balance_constraint_rule_def)
  have never: "fuel_balance_constraint_rule m N F1 Y D H sH \<noteq> Inr RNone"
  proof (cases "?g")
    case False
    then show ?thesis using skip by simp
  next
    case True
    show ?thesis
    proof (cases "filter_err (cons_cond m N F1 Y D H sH) ?idx")
      case (Inl e')
      with True show ?thesis using err by simp
    next
      case (Inr ci)
      with True show ?thesis using val [of ci] by simp
    qed
  qed
  show ?thesis
  proof (intro conjI impI)
    assume "''Electricity'' \<in> set (Fuel m) \<and> F1 \<in> set (Fuel m)"
    then show "\<exists>idx. filter_err (cons_cond m N F1 Y D H sH) ?idx = Inr idx"
      using cons_filter_succeeds by blast
  qed (use val zero err skip never in simp_all)
qed

lemma m_bal_facts:
  "Fuel m_bal = [''Electricity'', ''Gas'', ''Heat'']" "VreFuel m_bal = []"
  "non_storage_tech m_bal = [''Gen'']" "StorageTech m_bal = []"
  "pyfloat_gt (Max_inst_cap m_bal N T Y) 0" "F_subst m_bal F G = (F = G)"
  "E_input m_bal T F = (T = ''Gen'' \<and> F = ''Gas'')"
  "E_output m_bal T F = (T = ''Gen'' \<and> F = ''Electricity'')"
  "subst_rowsum m_bal ''Electricity'' = 1" "subst_rowsum m_bal ''Gas'' = 1"
  "subst_rowsum m_bal ''Heat'' = 1" "Slack_switch m_bal = 0"
  "Max_f_import m_bal N F = 0" "Max_f_fix_quant_import m_bal N F = 0"
  "Max_f_import_timeseries m_bal N F Y = 0" "F_demand m_bal N F Y D H sH = 0"
  "Share_const_cons_system m_bal F = 0" "Max_f_export m_bal N F = 0"
  "Max_f_injection m_bal N F = 0" "Max_f_export_timeseries m_bal N F Y = 0"
  "F_edp m_bal N T Y D H sH = 0" "V_edp m_bal N T Y D H sH = 0" "Aux_ed m_bal T = 0"
  by (simp_all add: m_bal_def default_model_def subst_rowsum_def non_storage_tech_def)

lemma m_bal_cons_gas:
  "filter_err (cons_cond m_bal ''n'' ''Gas'' 1 1 0 0)
     [(T, F). T \<leftarrow> non_storage_tech m_bal, pyfloat_gt (Max_inst_cap m_bal ''n'' T 1) 0,
              F \<leftarrow> Fuel m_bal] = Inr [(''Gen'', ''Gas'')]"
  by (simp add: m_bal_facts cons_cond_def subst_lookup_def)

lemma m_bal_cons_heat:
  "filter_err (cons_cond m_bal ''n'' ''Heat'' 1 1 0 0)
     [(T, F). T \<leftarrow> non_storage_tech m_bal, pyfloat_gt (Max_inst_cap m_bal ''n'' T 1) 0,
              F \<leftarrow> Fuel m_bal] = Inr []"
  by (simp add: m_bal_facts cons_cond_def subst_lookup_def)

lemma m_bal_cons_keyerror:
  "filter_err (cons_cond (m_bal\<lparr>Fuel := [''Gas'', ''Heat'']\<rparr>) ''n'' ''Heat'' 1 1 0 0)
     [(T, F). T \<leftarrow> non_storage_tech (m_bal\<lparr>Fuel := [''Gas'', ''Heat'']\<rparr>),
              pyfloat_gt (Max_inst_cap (m_bal\<lparr>Fuel := [''Gas'', ''Heat'']\<rparr>) ''n'' T 1) 0,
              F \<leftarrow> Fuel (m_bal\<lparr>Fuel := [''Gas'', ''Heat'']\<rparr>)] = Inl KeyError"
  by (simp add: m_bal_def default_model_def non_storage_tech_def cons_cond_def
      subst_lookup_def)

text \<open>
  Gas is consumed by the generator: a constraint. Heat has no term on either side: the
  constraint is skipped. Electricity as a fuel of variable renewables: skipped. Without a
  fuel named Electricity the consumption filter raises KeyError for Heat.
\<close>

theorem fuel_balance_three_way_witness:
  "subst_rowsum m_bal ''Gas'' = 1 \<and> ''Gas'' \<notin> set (VreFuel m_bal)
   \<and> ''Electricity'' \<in> set (Fuel m_bal) \<and> ''Gas'' \<in> set (Fuel m_bal)
   \<and> filter_err (cons_cond m_bal ''n'' ''Gas'' 1 1 0 0)
     [(T, F). T \<leftarrow> non_storage_tech m_bal, pyfloat_gt (Max_inst_cap m_bal ''n'' T 1) 0,
              F \<leftarrow> Fuel m_bal] = Inr [(''Gen'', ''Gas'')]
   \<and> \<not> is_num (balance_rhs m_bal ''n'' ''Gas'' 1 1 0 0 [(''Gen'', ''Gas'')])
   \<and> fuel_balance_constraint_rule m_bal ''n'' ''Gas'' 1 1 0 0 =
       Inr (Con (Eq (balance_lhs m_bal ''n'' ''Gas'' 1 1 0 0)
                    (balance_rhs m_bal ''n'' ''Gas'' 1 1 0 0 [(''Gen'', ''Gas'')])))
   \<and> subst_rowsum m_bal ''Heat'' = 1 \<and> ''Heat'' \<notin> set (VreFuel m_bal)
   \<and> filter_err (cons_cond m_bal ''n'' ''Heat'' 1 1 0 0)
     [(T, F). T \<leftarrow> non_storage_tech m_bal, pyfloat_gt (Max_inst_cap m_bal ''n'' T 1) 0,
              F \<leftarrow> Fuel m_bal] = Inr []
   \<and> is_num (balance_lhs m_bal ''n'' ''Heat'' 1 1 0 0)
   \<and> is_num (balance_rhs m_bal ''n'' ''Heat'' 1 1 0 0 [])
   \<and> fuel_balance_constraint_rule m_bal ''n'' ''Heat'' 1 1 0 0 = Inr Skip
   \<and> subst_rowsum m_vre ''Electricity'' = 1 \<and> ''Electricity'' \<in> set (VreFuel m_vre)
   \<and> fuel_balance_constraint_rule m_vre ''n'' ''Electricity'' 1 1 0 0 = Inr Skip
   \<and> subst_rowsum (m_bal\<lparr>Fuel := [''Gas'', ''Heat'']\<rparr>) ''Heat'' = 1
   \<and> ''Heat'' \<notin> set (VreFuel (m_bal\<lparr>Fuel := [''Gas'', ''Heat'']\<rparr>))
   \<and> fuel_balance_constraint_rule (m_bal\<lparr>Fuel := [''Gas'', ''Heat'']\<rparr>) ''n'' ''Heat'' 1 1 0 0
       = Inl KeyError"
proof -
  have g: "\<not> is_num (balance_rhs m_bal ''n'' ''Gas'' 1 1 0 0 [(''Gen'', ''Gas'')])"
    by (simp add: balance_rhs_def m_bal_facts is_num_foldl_py_add is_num_py_sum)
  have h: "is_num (balance_lhs m_bal ''n'' ''Heat'' 1 1 0 0)"
    "is_num (balance_rhs m_bal ''n'' ''Heat'' 1 1 0 0 [])"
    by (simp_all add: balance_lhs_def balance_rhs_def m_bal_facts is_num_foldl_py_add
        is_num_py_sum)
  have v: "subst_rowsum m_vre ''Electricity'' = 1" "''Electricity'' \<in> set (VreFuel m_vre)"
    by (simp_all add: m_vre_def m_bal_def default_model_def subst_rowsum_def)
  have k: "subst_rowsum (m_bal\<lparr>Fuel := [''Gas'', ''Heat'']\<rparr>) ''Heat'' = 1"
    "''Heat'' \<notin> set (VreFuel (m_bal\<lparr>Fuel := [''Gas'', ''Heat'']\<rparr>))"
    by (simp_all add: m_bal_def default_model_def subst_rowsum_def)
  note t1 = fuel_balance_three_way [where m = m_bal and N = "''n''" and ?F1.0 = "''Gas''"
      and Y = 1 and D = 1 and H = 0 and sH = 0 and cons_idx = "[(''Gen'', ''Gas'')]"]
  note t2 = fuel_balance_three_way [where m = m_bal and N = "''n''" and ?F1.0 = "''Heat''"
      and Y = 1 and D = 1 and H = 0 and sH = 0 and cons_idx = "[]"]
  note t3 = fuel_balance_three_way [where m = m_vre and N = "''n''"
      and ?F1.0 = "''Electricity''" and Y = 1 and D = 1 and H = 0 and sH = 0]
  note t4 = fuel_balance_three_way [where m = "m_bal\<lparr>Fuel := [''Gas'', ''Heat'']\<rparr>"
      and N = "''n''" and ?F1.0 = "''Heat''" and Y = 1 and D = 1 and H = 0 and sH = 0
      and e = KeyError]
  have r1: "fuel_balance_constraint_rule m_bal ''n'' ''Gas'' 1 1 0 0 =
       Inr (Con (Eq (balance_lhs m_bal ''n'' ''Gas'' 1 1 0 0)
                    (balance_rhs m_bal ''n'' ''Gas'' 1 1 0 0 [(''Gen'', ''Gas'')])))"
    using t1 g m_bal_cons_gas m_bal_facts(10) by (simp add: m_bal_facts(2))
  have r2: "fuel_balance_constraint_rule m_bal ''n'' ''Heat'' 1 1 0 0 = Inr Skip"
    using t2 h m_bal_cons_heat m_bal_facts(11) by (simp add: m_bal_facts(2))
  have r3: "fuel_balance_constraint_rule m_vre ''n'' ''Electricity'' 1 1 0 0 = Inr Skip"
    using t3 v by simp
  have r4: "fuel_balance_constraint_rule (m_bal\<lparr>Fuel := [''Gas'', ''Heat'']\<rparr>)
      ''n'' ''Heat'' 1 1 0 0 = Inl KeyError"
    using t4 k m_bal_cons_keyerror by simp
  show ?thesis
    using r1 r2 r3 r4 g h v k m_bal_cons_gas m_bal_cons_heat
    by (simp add: m_bal_facts)
qed

subsection \<open>Discounting of operational costs (C8)\<close>

lemma power_int_strict_mono_base:
  fixes x y :: real
  assumes "0 < x" "x < y" "1 \<le> e"
  shows "power_int x e < power_int y e"
proof -
  from assms(3) have "0 < nat e" by simp
  with assms(1,2) have "x ^ nat e < y ^ nat e"
    by (intro power_strict_mono) simp_all
  with assms(3) show ?thesis by (simp add: power_int_def)
qed

lemma disc_sum_strict:
  fixes c x y :: real
  assumes "es \<noteq> []" "\<forall>e\<in>set es. 1 \<le> e" "0 < c" "0 < x" "x < y"
  shows "(\<Sum>e\<leftarrow>es. c * power_int x e) < (\<Sum>e\<leftarrow>es. c * power_int y e)"
proof (rule sum_list_strict_mono)
  show "es \<noteq> []" by (rule assms(1))
next
  fix e assume "e \<in> set es"
  with assms(2) have "1 \<le> e" by simp
  from power_int_strict_mono_base [OF assms(4,5) this] assms(3)
  show "c * power_int x e < c * power_int y e" by simp
qed

lemma sum_list_concat_map:
  fixes f :: "'a \<Rightarrow> real list"
  shows "sum_list (concat (map f xs)) = (\<Sum>x\<leftarrow>xs. sum_list (f x))"
  by (induction xs) simp_all

text \<open>
  With the same opex \<open>c\<close> at every node and sampled year, the result is \<open>c\<close> times the
  sum of the powers of the discount factor over a list of exponents that does not depend
  on the rate: the exponents of the sampled years, then those of the missing years.
\<close>

lemma calc_disc_opex_flat:
  assumes "Year m \<noteq> []" "1 + r \<noteq> 0"
    and "\<forall>N\<in>set (Node m). \<forall>Y\<in>set (Year m). \<rho> (opex N T Y) = c"
  shows "calc_disc_opex self (m\<lparr>Discount_rate := r\<rparr>) \<rho> T =
     Inr (\<Sum>e\<leftarrow>[int Y2 + start_disc_opex self
                   + (Y - 1) * int (Scale_Y_to m div length (Year m)).
                 Y \<leftarrow> Year m, Y2 \<leftarrow> [0 ..< Scale_Y_to m div length (Year m)], N \<leftarrow> Node m]
               @ [Ym. Ym \<leftarrow> map (\<lambda>i. int (Scale_Y_to m) - int i - (1 - start_disc_opex self))
                        [0 ..< nat (int (Scale_Y_to m)
                            - int (length (Year m))
                              * int (Scale_Y_to m div length (Year m)))],
                      N \<leftarrow> Node m].
            c * power_int (1 / (1 + r)) e)"
proof -
  have mx: "Max (set (Year m)) \<in> set (Year m)"
    using assms(1) by (intro Max_in) simp_all
  have a: "\<And>N Y. N \<in> set (Node m) \<Longrightarrow> Y \<in> set (Year m) \<Longrightarrow> \<rho> (opex N T Y) = c"
    using assms(3) by blast
  show ?thesis
    using assms(1,2) a mx
    by (simp add: calc_disc_opex_def Let_def sum_list_concat_map map_concat comp_def
        cong: map_cong)
qed

lemma concat_map_nonempty: "x \<in> set xs \<Longrightarrow> f x \<noteq> [] \<Longrightarrow> concat (map f xs) \<noteq> []"
  by auto

lemma disc_exponents:
  assumes "Node m \<noteq> []" "Year m \<noteq> []" "\<forall>Y\<in>set (Year m). 1 \<le> Y" "1 \<le> Scale_Y_to m"
    and "1 \<le> start_disc_opex self"
  defines "es \<equiv>
     [int Y2 + start_disc_opex self + (Y - 1) * int (Scale_Y_to m div length (Year m)).
        Y \<leftarrow> Year m, Y2 \<leftarrow> [0 ..< Scale_Y_to m div length (Year m)], N \<leftarrow> Node m]
     @ [Ym. Ym \<leftarrow> map (\<lambda>i. int (Scale_Y_to m) - int i - (1 - start_disc_opex self))
              [0 ..< nat (int (Scale_Y_to m)
                  - int (length (Year m)) * int (Scale_Y_to m div length (Year m)))],
            N \<leftarrow> Node m]"
  shows "es \<noteq> []" and "\<forall>e\<in>set es. 1 \<le> e"
proof -
  let ?S = "Scale_Y_to m div length (Year m)"
  obtain N0 where N0: "N0 \<in> set (Node m)" using assms(1) by (cases "Node m") auto
  obtain Y0 where Y0: "Y0 \<in> set (Year m)" using assms(2) by (cases "Year m") auto
  show "es \<noteq> []"
  proof (cases "?S = 0")
    case False
    then have "(0::nat) \<in> set [0 ..< ?S]" by simp
    then have "concat (map (\<lambda>Y2. map (\<lambda>N. int Y2 + start_disc_opex self
                  + (Y0 - 1) * int ?S) (Node m)) [0 ..< ?S]) \<noteq> []"
      by (rule concat_map_nonempty) (simp add: assms(1))
    with Y0 have "concat (map (\<lambda>Y. concat (map (\<lambda>Y2. map (\<lambda>N. int Y2 + start_disc_opex self
                  + (Y - 1) * int ?S) (Node m)) [0 ..< ?S])) (Year m)) \<noteq> []"
      by (rule concat_map_nonempty)
    then show ?thesis unfolding es_def by simp
  next
    case True
    let ?f = "\<lambda>i. int (Scale_Y_to m) - int i - (1 - start_disc_opex self)"
    let ?n = "nat (int (Scale_Y_to m) - int (length (Year m)) * int ?S)"
    from True assms(4) have "0 < ?n" by simp
    then have "?f 0 \<in> set (map ?f [0 ..< ?n])" by simp
    then have "concat (map (\<lambda>Ym. map (\<lambda>N. Ym) (Node m)) (map ?f [0 ..< ?n])) \<noteq> []"
      by (rule concat_map_nonempty) (simp add: assms(1))
    then show ?thesis unfolding es_def by simp
  qed
  show "\<forall>e\<in>set es. 1 \<le> e"
  proof
    fix e assume "e \<in> set es"
    then consider (a) Y Y2 where "Y \<in> set (Year m)"
        "e = int Y2 + start_disc_opex self + (Y - 1) * int ?S"
      | (b) i where "i < nat (int (Scale_Y_to m) - int (length (Year m)) * int ?S)"
        "e = int (Scale_Y_to m) - int i - (1 - start_disc_opex self)"
      unfolding es_def by auto
    then show "1 \<le> e"
    proof cases
      case a
      from a(1) assms(3) have "0 \<le> Y - 1" by auto
      then have "0 \<le> (Y - 1) * int ?S" by simp
      with a(2) assms(5) show ?thesis by simp
    next
      case b
      have "0 \<le> int (length (Year m)) * int ?S" by simp
      with b(1) have "int i < int (Scale_Y_to m)" by linarith
      with b(2) assms(5) show ?thesis by simp
    qed
  qed
qed

text \<open>
  Claim C8, as stated, fails in four ways, each with the opex 1 at one node. With the
  discounting of the operational costs started at offset 0 (the constructor argument
  \<^verbatim>\<open>start_disc\<close>), the single year 1 carries the exponent 0 and the result is the same
  for the rates 0 and 1. With a sampled year 0 and two years to scale to, the exponents
  are -1 and 0 and the result grows with the rate. With no year to scale to, or without
  nodes, the sum is empty and the result is 0 for every rate.
\<close>

theorem calc_disc_opex_counterexample:
  "calc_disc_opex optsys_offset0 (m_disc\<lparr>Discount_rate := 0\<rparr>) rho_one ''Gen'' = Inr 1
   \<and> calc_disc_opex optsys_offset0 (m_disc\<lparr>Discount_rate := 1\<rparr>) rho_one ''Gen'' = Inr 1
   \<and> calc_disc_opex default_optsys
        (m_disc\<lparr>Year_All := [0], Year := [0], Scale_Y_to := 2, Discount_rate := 0\<rparr>)
        rho_one ''Gen'' = Inr 2
   \<and> calc_disc_opex default_optsys
        (m_disc\<lparr>Year_All := [0], Year := [0], Scale_Y_to := 2, Discount_rate := 1\<rparr>)
        rho_one ''Gen'' = Inr 3
   \<and> calc_disc_opex default_optsys (m_disc\<lparr>Scale_Y_to := 0, Discount_rate := 0\<rparr>)
        rho_one ''Gen'' = Inr 0
   \<and> calc_disc_opex default_optsys (m_disc\<lparr>Scale_Y_to := 0, Discount_rate := 1\<rparr>)
        rho_one ''Gen'' = Inr 0
   \<and> calc_disc_opex default_optsys (m_disc\<lparr>Node := [], Discount_rate := 0\<rparr>)
        rho_one ''Gen'' = Inr 0
   \<and> calc_disc_opex default_optsys (m_disc\<lparr>Node := [], Discount_rate := 1\<rparr>)
        rho_one ''Gen'' = Inr 0"
  by (simp add: calc_disc_opex_def m_disc_def default_model_def optsys_offset0_def
      default_optsys_def rho_one_def Let_def numeral_2_eq_2 power_int_minus)

text \<open>
  Claim C8, amended. Let the model have at least one node and one sampled year, all
  sampled years at least 1, at least one year to scale to, the discounting of the
  operational costs start at an offset of at least 1 (the default), and the opex be the
  same positive number at every node and sampled year. Then for rates
  \<open>0 \<le> r1 < r2\<close>, all else fixed, \<^verbatim>\<open>calc_disc_opex\<close> returns a value at both rates,
  and the value at \<open>r2\<close> is strictly smaller than the value at \<open>r1\<close>. The terms of the
  missing years are part of both values.
\<close>

theorem calc_disc_opex_strictly_decreasing:
  assumes "Node m \<noteq> []" "Year m \<noteq> []" "\<forall>Y\<in>set (Year m). 1 \<le> Y" "1 \<le> Scale_Y_to m"
    and "1 \<le> start_disc_opex self"
    and "0 < c" "\<forall>N\<in>set (Node m). \<forall>Y\<in>set (Year m). \<rho> (opex N T Y) = c"
    and "0 \<le> r1" "r1 < r2"
  shows "\<exists>v1 v2. calc_disc_opex self (m\<lparr>Discount_rate := r1\<rparr>) \<rho> T = Inr v1
           \<and> calc_disc_opex self (m\<lparr>Discount_rate := r2\<rparr>) \<rho> T = Inr v2
           \<and> v2 < v1"
proof -
  define es where "es =
     [int Y2 + start_disc_opex self + (Y - 1) * int (Scale_Y_to m div length (Year m)).
        Y \<leftarrow> Year m, Y2 \<leftarrow> [0 ..< Scale_Y_to m div length (Year m)], N \<leftarrow> Node m]
     @ [Ym. Ym \<leftarrow> map (\<lambda>i. int (Scale_Y_to m) - int i - (1 - start_disc_opex self))
              [0 ..< nat (int (Scale_Y_to m)
                  - int (length (Year m)) * int (Scale_Y_to m div length (Year m)))],
            N \<leftarrow> Node m]"
  have ne: "es \<noteq> []" and ge: "\<forall>e\<in>set es. 1 \<le> e"
    unfolding es_def by (rule disc_exponents [OF assms(1-5)])+
  from assms(8,9) have nz: "1 + r1 \<noteq> 0" "1 + r2 \<noteq> 0" by simp_all
  have v1: "calc_disc_opex self (m\<lparr>Discount_rate := r1\<rparr>) \<rho> T =
      Inr (\<Sum>e\<leftarrow>es. c * power_int (1 / (1 + r1)) e)"
    unfolding es_def by (rule calc_disc_opex_flat [OF assms(2) nz(1) assms(7)])
  have v2: "calc_disc_opex self (m\<lparr>Discount_rate := r2\<rparr>) \<rho> T =
      Inr (\<Sum>e\<leftarrow>es. c * power_int (1 / (1 + r2)) e)"
    unfolding es_def by (rule calc_disc_opex_flat [OF assms(2) nz(2) assms(7)])
  from assms(8,9) have x: "0 < 1 / (1 + r2)" "1 / (1 + r2) < 1 / (1 + r1)"
    by (simp_all add: frac_less2)
  have "(\<Sum>e\<leftarrow>es. c * power_int (1 / (1 + r2)) e) < (\<Sum>e\<leftarrow>es. c * power_int (1 / (1 + r1)) e)"
    by (rule disc_sum_strict [OF ne ge assms(6) x])
  with v1 v2 show ?thesis by blast
qed

text \<open>
  Years 1 and 2 with five years to scale to, two per sampled year and one missing year,
  opex 1 at one node: the sum of the discount factors of the years 1 to 5 is 5 at rate
  0 and 31/32 at rate 1.
\<close>

theorem calc_disc_opex_strictly_decreasing_witness:
  "Node (m_disc\<lparr>Year_All := [1, 2], Year := [1, 2], Scale_Y_to := 5\<rparr>) \<noteq> []
   \<and> Year (m_disc\<lparr>Year_All := [1, 2], Year := [1, 2], Scale_Y_to := 5\<rparr>) \<noteq> []
   \<and> Year (m_disc\<lparr>Year_All := [1, 2], Year := [1, 2], Scale_Y_to := 5\<rparr>) = [1, 2]
   \<and> 1 \<le> Scale_Y_to (m_disc\<lparr>Year_All := [1, 2], Year := [1, 2], Scale_Y_to := 5\<rparr>)
   \<and> 1 \<le> start_disc_opex default_optsys
   \<and> calc_disc_opex default_optsys
        (m_disc\<lparr>Year_All := [1, 2], Year := [1, 2], Scale_Y_to := 5, Discount_rate := 0\<rparr>) rho_one ''Gen'' = Inr 5
   \<and> calc_disc_opex default_optsys
        (m_disc\<lparr>Year_All := [1, 2], Year := [1, 2], Scale_Y_to := 5, Discount_rate := 1\<rparr>) rho_one ''Gen''
      = Inr (31 / 32)
   \<and> (\<exists>v1 v2. calc_disc_opex default_optsys
          (m_disc\<lparr>Year_All := [1, 2], Year := [1, 2], Scale_Y_to := 5, Discount_rate := 0\<rparr>) rho_one ''Gen'' = Inr v1
        \<and> calc_disc_opex default_optsys
          (m_disc\<lparr>Year_All := [1, 2], Year := [1, 2], Scale_Y_to := 5, Discount_rate := 1\<rparr>) rho_one ''Gen'' = Inr v2
        \<and> v2 < v1)"
proof -
  let ?m = "m_disc\<lparr>Year_All := [1, 2], Year := [1, 2], Scale_Y_to := 5\<rparr>"
  have h: "Node ?m \<noteq> []" "Year ?m \<noteq> []" "\<forall>Y\<in>set (Year ?m). 1 \<le> Y" "1 \<le> Scale_Y_to ?m"
    "1 \<le> start_disc_opex default_optsys" "(0::real) < 1"
    "\<forall>N\<in>set (Node ?m). \<forall>Y\<in>set (Year ?m). rho_one (opex N ''Gen'' Y) = 1"
    "(0::real) \<le> 0" "(0::real) < 1"
    by (simp_all add: m_disc_def default_model_def default_optsys_def rho_one_def)
  have u: "[0 ..< 2] = [0, Suc 0]" by (simp add: numeral_2_eq_2)
  have e: "calc_disc_opex default_optsys (?m\<lparr>Discount_rate := 0\<rparr>) rho_one ''Gen'' = Inr 5"
    "calc_disc_opex default_optsys (?m\<lparr>Discount_rate := 1\<rparr>) rho_one ''Gen'' = Inr (31 / 32)"
    by (simp_all add: calc_disc_opex_def m_disc_def default_model_def default_optsys_def
        rho_one_def Let_def numeral_2_eq_2 [symmetric] power_int_def u)
      (simp add: eval_nat_numeral)
  have y: "Year ?m = [1, 2]" by simp
  from calc_disc_opex_strictly_decreasing [OF h] h(1,2,4,5) y e show ?thesis
    by simp
qed

end
